theory Spec2Isabelle
  imports Main "HOL-Library.Char_ord" "HOL-Library.List_Lexorder"
begin

section \<open>Schema: enums and rows\<close>

text \<open>
  The four enum types of the migration. The constructors carry the labels of the SQL
  enums (and of the TypeScript literal unions that mirror them).
\<close>

datatype account_type = contador | escritorio

datatype person_type = PF | PJ

datatype task_type = imposto | folha | declaracao | outro

datatype task_status = pendente | concluida | atrasada

text \<open>The text of a status label, as the client compares it with \<open>===\<close>.\<close>

fun status_text :: "task_status \<Rightarrow> string" where
  "status_text pendente = ''pendente''"
| "status_text concluida = ''concluida''"
| "status_text atrasada = ''atrasada''"

type_synonym uuid = string

text \<open>A \<open>TIMESTAMP WITH TIME ZONE\<close>: an instant, counted in microseconds.\<close>

type_synonym timestamptz = int

text \<open>
  A row of \<open>public.tasks\<close>. Nullable columns are options. The \<open>DATE\<close> column
  \<open>due_date\<close> is kept as the text \<open>YYYY-MM-DD\<close> in which it reaches the client
  (the \<open>Task\<close> interface declares it \<open>string\<close>).
\<close>

record task =
  t_id :: uuid
  t_user_id :: uuid
  t_client_id :: "uuid option"
  t_title :: string
  t_description :: "string option"
  t_task_type :: task_type
  t_due_date :: string
  t_status :: task_status
  t_created_at :: timestamptz

section \<open>The current date of the list screens\<close>

text \<open>
  Both screens compute \<open>today\<close> as \<open>new Date().toISOString().split('T')[0]\<close>.
  The current instant is given by its UTC fields; \<open>toISOString\<close> prints them as
  \<open>YYYY-MM-DDTHH:mm:ss.sssZ\<close>, with the expanded year \<open>+YYYYYY\<close> beyond 9999.
\<close>

definition digit_char :: "nat \<Rightarrow> char" where
  "digit_char d = char_of (48 + d)"

text \<open>\<open>digits n k\<close>: the decimal digits of \<open>k\<close>, zero-padded to width \<open>n\<close>.\<close>

fun digits :: "nat \<Rightarrow> nat \<Rightarrow> string" where
  "digits 0 k = []"
| "digits (Suc n) k = digits n (k div 10) @ [digit_char (k mod 10)]"

record utc_fields =
  utc_year :: nat
  utc_month :: nat
  utc_day :: nat
  utc_hours :: nat
  utc_minutes :: nat
  utc_seconds :: nat
  utc_milliseconds :: nat

definition valid_instant :: "utc_fields \<Rightarrow> bool" where
  "valid_instant d \<longleftrightarrow>
     utc_year d \<le> 9999 \<and> 1 \<le> utc_month d \<and> utc_month d \<le> 12 \<and>
     1 \<le> utc_day d \<and> utc_day d \<le> 31 \<and> utc_hours d < 24 \<and> utc_minutes d < 60 \<and>
     utc_seconds d < 60 \<and> utc_milliseconds d < 1000"

definition toISOString :: "utc_fields \<Rightarrow> string" where
  "toISOString d =
     (if utc_year d \<le> 9999 then digits 4 (utc_year d) else CHR ''+'' # digits 6 (utc_year d))
     @ ''-'' @ digits 2 (utc_month d) @ ''-'' @ digits 2 (utc_day d)
     @ ''T'' @ digits 2 (utc_hours d) @ '':'' @ digits 2 (utc_minutes d)
     @ '':'' @ digits 2 (utc_seconds d) @ ''.'' @ digits 3 (utc_milliseconds d) @ ''Z''"

text \<open>\<open>s.split(sep)\<close> for a one-character separator: never the empty array.\<close>

fun split :: "char \<Rightarrow> string \<Rightarrow> string list" where
  "split sep [] = [[]]"
| "split sep (c # cs) =
     (if c = sep then [] # split sep cs
      else (case split sep cs of w # ws \<Rightarrow> (c # w) # ws | [] \<Rightarrow> [[c]]))"

definition today :: "utc_fields \<Rightarrow> string" where
  "today now = split (CHR ''T'') (toISOString now) ! 0"

subsection \<open>Calendar dates and their text\<close>

text \<open>
  A calendar date and the text \<open>YYYY-MM-DD\<close> of a \<open>DATE\<close> value with a four-digit
  year, which is what the due date of a task is on the client.
\<close>

record calendar_date =
  cal_year :: nat
  cal_month :: nat
  cal_day :: nat

definition valid_date :: "calendar_date \<Rightarrow> bool" where
  "valid_date c \<longleftrightarrow>
     cal_year c \<le> 9999 \<and> 1 \<le> cal_month c \<and> cal_month c \<le> 12 \<and>
     1 \<le> cal_day c \<and> cal_day c \<le> 31"

definition date_text :: "calendar_date \<Rightarrow> string" where
  "date_text c = digits 4 (cal_year c) @ ''-'' @ digits 2 (cal_month c) @ ''-'' @ digits 2 (cal_day c)"

definition date_before :: "calendar_date \<Rightarrow> calendar_date \<Rightarrow> bool" where
  "date_before a b \<longleftrightarrow>
     cal_year a < cal_year b \<or>
     cal_year a = cal_year b \<and>
       (cal_month a < cal_month b \<or> cal_month a = cal_month b \<and> cal_day a < cal_day b)"

text \<open>The UTC calendar date of an instant: its time of day dropped.\<close>

definition utc_calendar_date :: "utc_fields \<Rightarrow> calendar_date" where
  "utc_calendar_date now =
     \<lparr>cal_year = utc_year now, cal_month = utc_month now, cal_day = utc_day now\<rparr>"

subsection \<open>The viewer's local date\<close>

text \<open>
  The current date in the words of the specification (section 4.3): the calendar date on
  the viewer's clock. \<open>offset\<close> is the viewer's \<open>getTimezoneOffset()\<close>, the minutes by
  which the local time is behind UTC (180 in Brasilia), less than a day either way. The
  screens never compute this date: it is what their \<open>today\<close> is measured against.
\<close>

definition leap_year :: "nat \<Rightarrow> bool" where
  "leap_year y \<longleftrightarrow> y mod 4 = 0 \<and> y mod 100 \<noteq> 0 \<or> y mod 400 = 0"

definition days_in_month :: "nat \<Rightarrow> nat \<Rightarrow> nat" where
  "days_in_month y m =
     (if m = 2 then (if leap_year y then 29 else 28)
      else if m = 4 \<or> m = 6 \<or> m = 9 \<or> m = 11 then 30
      else 31)"

definition previous_day :: "calendar_date \<Rightarrow> calendar_date" where
  "previous_day c =
     (if 1 < cal_day c then c\<lparr>cal_day := cal_day c - 1\<rparr>
      else if 1 < cal_month c
        then \<lparr>cal_year = cal_year c, cal_month = cal_month c - 1,
              cal_day = days_in_month (cal_year c) (cal_month c - 1)\<rparr>
      else \<lparr>cal_year = cal_year c - 1, cal_month = 12, cal_day = 31\<rparr>)"

definition next_day :: "calendar_date \<Rightarrow> calendar_date" where
  "next_day c =
     (if cal_day c < days_in_month (cal_year c) (cal_month c) then c\<lparr>cal_day := cal_day c + 1\<rparr>
      else if cal_month c < 12
        then \<lparr>cal_year = cal_year c, cal_month = cal_month c + 1, cal_day = 1\<rparr>
      else \<lparr>cal_year = cal_year c + 1, cal_month = 1, cal_day = 1\<rparr>)"

definition viewer_local_date :: "int \<Rightarrow> utc_fields \<Rightarrow> calendar_date" where
  "viewer_local_date offset now =
     (let minutes = int (60 * utc_hours now + utc_minutes now) - offset in
      if minutes < 0 then previous_day (utc_calendar_date now)
      else if 1440 \<le> minutes then next_day (utc_calendar_date now)
      else utc_calendar_date now)"

section \<open>The task list and the dashboard\<close>

datatype status_badge = Badge_Concluida | Badge_Atrasada | Badge_Hoje | Badge_Pendente

text \<open>
  The text inside each badge, as UTF-16 code units; ASCII text is written by its
  characters. In the badge of a completed task the source of the task list has the
  letter U+00ED after \<open>Conclu\<close>; the source of the dashboard has the two code units
  U+221A and U+2260 in its place.
\<close>

definition code_units :: "string \<Rightarrow> nat list" where
  "code_units s = map (of_char :: char \<Rightarrow> nat) s"

fun Tasks_badge_text :: "status_badge \<Rightarrow> nat list" where
  "Tasks_badge_text Badge_Concluida = code_units ''Conclu'' @ [0xED] @ code_units ''da''"
| "Tasks_badge_text Badge_Atrasada = code_units ''Atrasada''"
| "Tasks_badge_text Badge_Hoje = code_units ''Hoje''"
| "Tasks_badge_text Badge_Pendente = code_units ''Pendente''"

fun Dashboard_badge_text :: "status_badge \<Rightarrow> nat list" where
  "Dashboard_badge_text Badge_Concluida = code_units ''Conclu'' @ [0x221A, 0x2260] @ code_units ''da''"
| "Dashboard_badge_text Badge_Atrasada = code_units ''Atrasada''"
| "Dashboard_badge_text Badge_Hoje = code_units ''Hoje''"
| "Dashboard_badge_text Badge_Pendente = code_units ''Pendente''"

text \<open>
  \<open>getStatusBadge(status, dueDate)\<close> of the task list (\<open>Tasks\<close>) and of the dashboard:
  the same four branches in both, on strings, compared as JavaScript compares strings.
\<close>

definition Tasks_getStatusBadge :: "utc_fields \<Rightarrow> string \<Rightarrow> string \<Rightarrow> status_badge" where
  "Tasks_getStatusBadge now status dueDate =
     (let today = today now in
      if status = ''concluida'' then Badge_Concluida
      else if dueDate < today then Badge_Atrasada
      else if dueDate = today then Badge_Hoje
      else Badge_Pendente)"

definition Dashboard_getStatusBadge :: "utc_fields \<Rightarrow> string \<Rightarrow> string \<Rightarrow> status_badge" where
  "Dashboard_getStatusBadge now status dueDate =
     (let today = today now in
      if status = ''concluida'' then Badge_Concluida
      else if dueDate < today then Badge_Atrasada
      else if dueDate = today then Badge_Hoje
      else Badge_Pendente)"

text \<open>The call in each row: \<open>getStatusBadge(task.status, task.due_date)\<close>.\<close>

definition Tasks_row_badge :: "utc_fields \<Rightarrow> task \<Rightarrow> status_badge" where
  "Tasks_row_badge now t = Tasks_getStatusBadge now (status_text (t_status t)) (t_due_date t)"

definition Dashboard_row_badge :: "utc_fields \<Rightarrow> task \<Rightarrow> status_badge" where
  "Dashboard_row_badge now t = Dashboard_getStatusBadge now (status_text (t_status t)) (t_due_date t)"

text \<open>
  The effect on \<open>[statusFilter, tasks]\<close> of the task list: the value it gives to
  \<open>filteredTasks\<close>.
\<close>

definition filteredTasks :: "string \<Rightarrow> utc_fields \<Rightarrow> task list \<Rightarrow> task list" where
  "filteredTasks statusFilter now tasks =
     (if statusFilter = ''all'' then tasks
      else
        (let today = today now in
         if statusFilter = ''overdue''
         then filter (\<lambda>t. t_status t = pendente \<and> t_due_date t < today) tasks
         else filter (\<lambda>t. status_text (t_status t) = statusFilter) tasks))"

text \<open>The status that \<open>toggleTaskComplete\<close> writes for a task it is given.\<close>

definition newStatus :: "task \<Rightarrow> task_status" where
  "newStatus t = (if t_status t = concluida then pendente else concluida)"

section \<open>The database\<close>

text \<open>
  The rows of \<open>auth.users\<close> that the trigger functions read: the identity, its e-mail
  address and the metadata given at sign-up. The metadata is a JSON object (or NULL);
  its members are scalars.
\<close>

datatype json = JNull | JBool bool | JString string

record auth_user =
  u_id :: uuid
  u_email :: "string option"
  u_raw_user_meta_data :: "(string \<times> json) list option"

record profile =
  p_id :: uuid
  p_name :: string
  p_email :: string
  p_account_type :: account_type
  p_created_at :: timestamptz
  p_last_login :: "timestamptz option"

record client =
  c_id :: uuid
  c_user_id :: uuid
  c_name :: string
  c_cpf_cnpj :: string
  c_person_type :: person_type
  c_email :: "string option"
  c_phone :: "string option"
  c_created_at :: timestamptz

record database =
  auth_users :: "auth_user list"
  profiles :: "profile list"
  clients :: "client list"
  tasks :: "task list"

text \<open>The errors a statement can raise, by their SQLSTATE class, with the object at fault.\<close>

datatype sql_error =
    invalid_text_representation string
  | not_null_violation string
  | unique_violation string
  | foreign_key_violation string
  | insufficient_privilege string

subsection \<open>Keys\<close>

text \<open>
  The primary keys and the foreign keys of the three tables. A statement that would
  leave one of them violated raises the error and changes nothing; the state before
  the statement satisfies them all.
\<close>

definition check_constraints :: "database \<Rightarrow> sql_error option" where
  "check_constraints db =
     (if \<not> distinct (map u_id (auth_users db)) then Some (unique_violation ''users_pkey'')
      else if \<not> distinct (map p_id (profiles db)) then Some (unique_violation ''profiles_pkey'')
      else if \<not> list_all (\<lambda>p. p_id p \<in> set (map u_id (auth_users db))) (profiles db)
        then Some (foreign_key_violation ''profiles_id_fkey'')
      else if \<not> distinct (map c_id (clients db)) then Some (unique_violation ''clients_pkey'')
      else if \<not> list_all (\<lambda>c. c_user_id c \<in> set (map p_id (profiles db))) (clients db)
        then Some (foreign_key_violation ''clients_user_id_fkey'')
      else if \<not> distinct (map t_id (tasks db)) then Some (unique_violation ''tasks_pkey'')
      else if \<not> list_all (\<lambda>t. t_user_id t \<in> set (map p_id (profiles db))) (tasks db)
        then Some (foreign_key_violation ''tasks_user_id_fkey'')
      else if \<not> list_all (\<lambda>t. case t_client_id t of None \<Rightarrow> True
                                | Some c \<Rightarrow> c \<in> set (map c_id (clients db))) (tasks db)
        then Some (foreign_key_violation ''tasks_client_id_fkey'')
      else None)"

definition enforce_constraints :: "database \<Rightarrow> sql_error + database" where
  "enforce_constraints db = (case check_constraints db of Some e \<Rightarrow> Inl e | None \<Rightarrow> Inr db)"

text \<open>The state a statement leaves behind: the old one when it raised.\<close>

definition state_after :: "database \<Rightarrow> sql_error + database \<Rightarrow> database" where
  "state_after db r = (case r of Inl e \<Rightarrow> db | Inr db' \<Rightarrow> db')"

subsection \<open>Account provisioning: \<open>handle_new_user\<close>\<close>

text \<open>\<open>object ->> key\<close>: the member as text; NULL for a NULL object, a missing key or a JSON null.\<close>

fun json_text :: "json \<Rightarrow> string option" where
  "json_text JNull = None"
| "json_text (JBool b) = Some (if b then ''true'' else ''false'')"
| "json_text (JString s) = Some s"

definition get_text :: "(string \<times> json) list option \<Rightarrow> string \<Rightarrow> string option" where
  "get_text obj k =
     (case obj of None \<Rightarrow> None
      | Some members \<Rightarrow> (case map_of members k of None \<Rightarrow> None | Some v \<Rightarrow> json_text v))"

definition COALESCE :: "'a option \<Rightarrow> 'a option \<Rightarrow> 'a option" where
  "COALESCE a b = (case a of Some x \<Rightarrow> Some x | None \<Rightarrow> b)"

text \<open>
  The cast \<open>(text)::account_type\<close>: NULL stays NULL, a label of the enum is its value,
  any other text is an invalid input value for the enum.
\<close>

definition cast_account_type :: "string option \<Rightarrow> sql_error + account_type option" where
  "cast_account_type x =
     (case x of None \<Rightarrow> Inr None
      | Some s \<Rightarrow>
          if s = ''contador'' then Inr (Some contador)
          else if s = ''escritorio'' then Inr (Some escritorio)
          else Inl (invalid_text_representation s))"

text \<open>
  The trigger function. It runs as its owner (\<open>SECURITY DEFINER\<close>), so no policy of
  \<open>profiles\<close> applies to its \<open>INSERT\<close>. \<open>created_at\<close> and \<open>last_login\<close> take their
  default \<open>now()\<close>.
\<close>

definition handle_new_user :: "timestamptz \<Rightarrow> auth_user \<Rightarrow> database \<Rightarrow> sql_error + database" where
  "handle_new_user now NEW db =
     (case cast_account_type (get_text (u_raw_user_meta_data NEW) ''account_type'') of
        Inl e \<Rightarrow> Inl e
      | Inr category \<Rightarrow>
          (case COALESCE (get_text (u_raw_user_meta_data NEW) ''name'') (u_email NEW) of
             None \<Rightarrow> Inl (not_null_violation ''name'')
           | Some name \<Rightarrow>
               (case u_email NEW of
                  None \<Rightarrow> Inl (not_null_violation ''email'')
                | Some email \<Rightarrow>
                    (case COALESCE category (Some contador) of
                       None \<Rightarrow> Inl (not_null_violation ''account_type'')
                     | Some a \<Rightarrow>
                         enforce_constraints
                           (db\<lparr>profiles := profiles db @
                              [\<lparr>p_id = u_id NEW, p_name = name, p_email = email,
                                p_account_type = a, p_created_at = now,
                                p_last_login = Some now\<rparr>]\<rparr>)))))"

text \<open>
  An \<open>INSERT\<close> of one row into \<open>auth.users\<close>, with the trigger \<open>on_auth_user_created\<close>
  (\<open>AFTER INSERT ... FOR EACH ROW EXECUTE FUNCTION handle_new_user()\<close>): the function
  runs on the inserted row inside the statement, and an error it raises is the error
  of the statement.
\<close>

definition on_auth_user_created :: "timestamptz \<Rightarrow> auth_user \<Rightarrow> database \<Rightarrow> sql_error + database" where
  "on_auth_user_created now NEW db =
     (case enforce_constraints (db\<lparr>auth_users := auth_users db @ [NEW]\<rparr>) of
        Inl e \<Rightarrow> Inl e
      | Inr db1 \<Rightarrow>
          (case handle_new_user now NEW db1 of
             Inl e \<Rightarrow> Inl e
           | Inr db2 \<Rightarrow> Inr db2))"

text \<open>\<open>SELECT * FROM profiles WHERE id = i\<close>, as one row or none.\<close>

definition profile_of :: "database \<Rightarrow> uuid \<Rightarrow> profile option" where
  "profile_of db i = find (\<lambda>p. p_id p = i) (profiles db)"

text \<open>How many rows of \<open>profiles\<close> carry an identity.\<close>

definition profile_count :: "database \<Rightarrow> uuid \<Rightarrow> nat" where
  "profile_count db i = length (filter (\<lambda>p. p_id p = i) (profiles db))"

definition one_profile_each :: "database \<Rightarrow> bool" where
  "one_profile_each db \<longleftrightarrow> list_all (\<lambda>u. profile_count db (u_id u) = 1) (auth_users db)"

subsection \<open>Last login: \<open>update_last_login\<close>\<close>

definition update_last_login :: "timestamptz \<Rightarrow> auth_user \<Rightarrow> database \<Rightarrow> database" where
  "update_last_login now NEW db =
     db\<lparr>profiles :=
       map (\<lambda>p. if p_id p = u_id NEW then p\<lparr>p_last_login := Some now\<rparr> else p) (profiles db)\<rparr>"

text \<open>
  Modelled from the spec: the migration defines \<open>update_last_login\<close> and creates no
  trigger for it; the statement that runs it at a sign-in is not in the source. By
  section 4.2 of the specification each successful authentication of an existing
  identity runs it on that identity's row, at the time of the authentication. A run of
  sign-ins is the list of their times, oldest first.
\<close>

fun sign_ins :: "auth_user \<Rightarrow> timestamptz list \<Rightarrow> database \<Rightarrow> database" where
  "sign_ins u [] db = db"
| "sign_ins u (t # ts) db = sign_ins u ts (update_last_login t u db)"

text \<open>\<open>SELECT last_login FROM profiles WHERE id = i\<close>: NULL when there is no such row.\<close>

definition last_login :: "database \<Rightarrow> uuid \<Rightarrow> timestamptz option" where
  "last_login db i = (case profile_of db i of None \<Rightarrow> None | Some p \<Rightarrow> p_last_login p)"

text \<open>The value of \<open>last_login\<close> after each sign-in of a run.\<close>

fun last_login_history :: "auth_user \<Rightarrow> timestamptz list \<Rightarrow> database \<Rightarrow> timestamptz option list" where
  "last_login_history u [] db = []"
| "last_login_history u (t # ts) db =
     last_login (update_last_login t u db) (u_id u)
       # last_login_history u ts (update_last_login t u db)"

subsection \<open>Row-level security\<close>

text \<open>
  \<open>auth.uid()\<close> is the identity of the caller, NULL without a session. Each policy
  compares it with the owner column; a comparison with NULL admits no row.
\<close>

definition view_own_profile :: "uuid option \<Rightarrow> profile \<Rightarrow> bool" where
  "view_own_profile uid r \<longleftrightarrow> uid = Some (p_id r)"

definition update_own_profile :: "uuid option \<Rightarrow> profile \<Rightarrow> bool" where
  "update_own_profile uid r \<longleftrightarrow> uid = Some (p_id r)"

definition insert_own_profile :: "uuid option \<Rightarrow> profile \<Rightarrow> bool" where
  "insert_own_profile uid r \<longleftrightarrow> uid = Some (p_id r)"

definition view_own_clients :: "uuid option \<Rightarrow> client \<Rightarrow> bool" where
  "view_own_clients uid r \<longleftrightarrow> uid = Some (c_user_id r)"

definition insert_own_clients :: "uuid option \<Rightarrow> client \<Rightarrow> bool" where
  "insert_own_clients uid r \<longleftrightarrow> uid = Some (c_user_id r)"

definition update_own_clients :: "uuid option \<Rightarrow> client \<Rightarrow> bool" where
  "update_own_clients uid r \<longleftrightarrow> uid = Some (c_user_id r)"

definition delete_own_clients :: "uuid option \<Rightarrow> client \<Rightarrow> bool" where
  "delete_own_clients uid r \<longleftrightarrow> uid = Some (c_user_id r)"

definition view_own_tasks :: "uuid option \<Rightarrow> task \<Rightarrow> bool" where
  "view_own_tasks uid r \<longleftrightarrow> uid = Some (t_user_id r)"

definition insert_own_tasks :: "uuid option \<Rightarrow> task \<Rightarrow> bool" where
  "insert_own_tasks uid r \<longleftrightarrow> uid = Some (t_user_id r)"

definition update_own_tasks :: "uuid option \<Rightarrow> task \<Rightarrow> bool" where
  "update_own_tasks uid r \<longleftrightarrow> uid = Some (t_user_id r)"

definition delete_own_tasks :: "uuid option \<Rightarrow> task \<Rightarrow> bool" where
  "delete_own_tasks uid r \<longleftrightarrow> uid = Some (t_user_id r)"

subsection \<open>Statements of a caller\<close>

text \<open>
  The four kinds of statement on \<open>clients\<close> and \<open>tasks\<close> (and the update of
  \<open>profiles\<close>), run for a caller \<open>uid\<close> with a \<open>WHERE\<close> condition \<open>cond\<close>.
  A \<open>SELECT\<close> sees the rows its policy admits. An \<open>INSERT\<close> raises when the new row
  fails the \<open>WITH CHECK\<close> expression. An \<open>UPDATE\<close> or \<open>DELETE\<close> touches the rows
  that the caller can see and that its \<open>USING\<close> expression admits; an \<open>UPDATE\<close>
  policy without \<open>WITH CHECK\<close> applies its \<open>USING\<close> expression to the new row
  as well. \<open>SET\<close> is a function on rows.
\<close>

definition select_clients :: "uuid option \<Rightarrow> (client \<Rightarrow> bool) \<Rightarrow> database \<Rightarrow> client list" where
  "select_clients uid cond db = filter (\<lambda>r. view_own_clients uid r \<and> cond r) (clients db)"

definition insert_clients :: "uuid option \<Rightarrow> client \<Rightarrow> database \<Rightarrow> sql_error + database" where
  "insert_clients uid r db =
     (if \<not> insert_own_clients uid r then Inl (insufficient_privilege ''clients'')
      else enforce_constraints (db\<lparr>clients := clients db @ [r]\<rparr>))"

definition update_clients ::
  "uuid option \<Rightarrow> (client \<Rightarrow> bool) \<Rightarrow> (client \<Rightarrow> client) \<Rightarrow> database \<Rightarrow> sql_error + database" where
  "update_clients uid cond SET db =
     (let hit = (\<lambda>r. view_own_clients uid r \<and> update_own_clients uid r \<and> cond r) in
      if \<not> list_all (\<lambda>r. update_own_clients uid (SET r)) (filter hit (clients db))
      then Inl (insufficient_privilege ''clients'')
      else enforce_constraints
             (db\<lparr>clients := map (\<lambda>r. if hit r then SET r else r) (clients db)\<rparr>))"

text \<open>
  Deleting a client runs the action of \<open>tasks.client_id ... ON DELETE SET NULL\<close> on
  every task that references it, with the rights of the table owner: no policy of
  \<open>tasks\<close> applies to that action.
\<close>

definition delete_clients :: "uuid option \<Rightarrow> (client \<Rightarrow> bool) \<Rightarrow> database \<Rightarrow> database" where
  "delete_clients uid cond db =
     (let hit = (\<lambda>r. view_own_clients uid r \<and> delete_own_clients uid r \<and> cond r);
          gone = map c_id (filter hit (clients db)) in
      db\<lparr>clients := filter (\<lambda>r. \<not> hit r) (clients db),
         tasks := map (\<lambda>t. case t_client_id t of
                              None \<Rightarrow> t
                            | Some c \<Rightarrow> if c \<in> set gone then t\<lparr>t_client_id := None\<rparr> else t)
                   (tasks db)\<rparr>)"

definition select_tasks :: "uuid option \<Rightarrow> (task \<Rightarrow> bool) \<Rightarrow> database \<Rightarrow> task list" where
  "select_tasks uid cond db = filter (\<lambda>r. view_own_tasks uid r \<and> cond r) (tasks db)"

definition insert_tasks :: "uuid option \<Rightarrow> task \<Rightarrow> database \<Rightarrow> sql_error + database" where
  "insert_tasks uid r db =
     (if \<not> insert_own_tasks uid r then Inl (insufficient_privilege ''tasks'')
      else enforce_constraints (db\<lparr>tasks := tasks db @ [r]\<rparr>))"

definition update_tasks ::
  "uuid option \<Rightarrow> (task \<Rightarrow> bool) \<Rightarrow> (task \<Rightarrow> task) \<Rightarrow> database \<Rightarrow> sql_error + database" where
  "update_tasks uid cond SET db =
     (let hit = (\<lambda>r. view_own_tasks uid r \<and> update_own_tasks uid r \<and> cond r) in
      if \<not> list_all (\<lambda>r. update_own_tasks uid (SET r)) (filter hit (tasks db))
      then Inl (insufficient_privilege ''tasks'')
      else enforce_constraints
             (db\<lparr>tasks := map (\<lambda>r. if hit r then SET r else r) (tasks db)\<rparr>))"

definition delete_tasks :: "uuid option \<Rightarrow> (task \<Rightarrow> bool) \<Rightarrow> database \<Rightarrow> database" where
  "delete_tasks uid cond db =
     (let hit = (\<lambda>r. view_own_tasks uid r \<and> delete_own_tasks uid r \<and> cond r) in
      db\<lparr>tasks := filter (\<lambda>r. \<not> hit r) (tasks db)\<rparr>)"

definition update_profiles ::
  "uuid option \<Rightarrow> (profile \<Rightarrow> bool) \<Rightarrow> (profile \<Rightarrow> profile) \<Rightarrow> database \<Rightarrow> sql_error + database" where
  "update_profiles uid cond SET db =
     (let hit = (\<lambda>r. view_own_profile uid r \<and> update_own_profile uid r \<and> cond r) in
      if \<not> list_all (\<lambda>r. update_own_profile uid (SET r)) (filter hit (profiles db))
      then Inl (insufficient_privilege ''profiles'')
      else enforce_constraints
             (db\<lparr>profiles := map (\<lambda>r. if hit r then SET r else r) (profiles db)\<rparr>))"

text \<open>The condition \<open>.eq('id', v)\<close> on each table.\<close>

definition profiles_eq_id :: "uuid \<Rightarrow> profile \<Rightarrow> bool" where
  "profiles_eq_id v r \<longleftrightarrow> p_id r = v"

definition clients_eq_id :: "uuid \<Rightarrow> client \<Rightarrow> bool" where
  "clients_eq_id v r \<longleftrightarrow> c_id r = v"

definition tasks_eq_id :: "uuid \<Rightarrow> task \<Rightarrow> bool" where
  "tasks_eq_id v r \<longleftrightarrow> t_id r = v"

text \<open>The rows of a table that belong to one owner.\<close>

definition clients_of :: "uuid \<Rightarrow> database \<Rightarrow> client list" where
  "clients_of u db = filter (\<lambda>r. c_user_id r = u) (clients db)"

definition tasks_of :: "uuid \<Rightarrow> database \<Rightarrow> task list" where
  "tasks_of u db = filter (\<lambda>r. t_user_id r = u) (tasks db)"

subsection \<open>The data-access layer\<close>

text \<open>
  The statements that change \<open>clients\<close> and \<open>tasks\<close>, and what a caller's statement
  leaves of the database (a statement that raises leaves it as it was).
\<close>

datatype statement =
    Insert_client client
  | Update_clients "client \<Rightarrow> bool" "client \<Rightarrow> client"
  | Delete_clients "client \<Rightarrow> bool"
  | Insert_task task
  | Update_tasks "task \<Rightarrow> bool" "task \<Rightarrow> task"
  | Delete_tasks "task \<Rightarrow> bool"

fun execute :: "uuid option \<Rightarrow> statement \<Rightarrow> database \<Rightarrow> database" where
  "execute uid (Insert_client r) db = state_after db (insert_clients uid r db)"
| "execute uid (Update_clients cond SET) db = state_after db (update_clients uid cond SET db)"
| "execute uid (Delete_clients cond) db = delete_clients uid cond db"
| "execute uid (Insert_task r) db = state_after db (insert_tasks uid r db)"
| "execute uid (Update_tasks cond SET) db = state_after db (update_tasks uid cond SET db)"
| "execute uid (Delete_tasks cond) db = delete_tasks uid cond db"

fun execute_all :: "uuid option \<Rightarrow> statement list \<Rightarrow> database \<Rightarrow> database" where
  "execute_all uid [] db = db"
| "execute_all uid (s # ss) db = execute_all uid ss (execute uid s db)"

section \<open>The pages that write\<close>

text \<open>
  Each handler is given the signed-in user (\<open>user.id\<close>, none without a session), which
  is also the \<open>auth.uid()\<close> of its requests, and returns the database its request
  leaves: a request that fails is caught and reported, and changes nothing. Columns that
  a request does not send take their defaults: \<open>id\<close> a fresh \<open>gen_random_uuid()\<close>,
  \<open>created_at\<close> the time \<open>now()\<close>, \<open>status\<close> the label \<open>'pendente'\<close>.
\<close>

text \<open>\<open>x || null\<close> on an optional string: absent and empty both give null.\<close>

definition or_null :: "string option \<Rightarrow> string option" where
  "or_null x = (case x of None \<Rightarrow> None | Some s \<Rightarrow> if s = [] then None else Some s)"

text \<open>\<open>!!x\<close> on a string that may be absent.\<close>

definition truthy :: "string option \<Rightarrow> bool" where
  "truthy x = (case x of None \<Rightarrow> False | Some s \<Rightarrow> s \<noteq> [])"

subsection \<open>The task form\<close>

record TaskFormData =
  title :: string
  description :: "string option"
  task_type :: task_type
  due_date :: string
  client_id :: "string option"

text \<open>The object \<open>taskData\<close> that \<open>onSubmit\<close> sends: six columns, \<open>status\<close> not among them.\<close>

record taskData =
  td_title :: string
  td_description :: "string option"
  td_task_type :: task_type
  td_due_date :: string
  td_client_id :: "string option"
  td_user_id :: uuid

definition make_taskData :: "uuid \<Rightarrow> TaskFormData \<Rightarrow> taskData" where
  "make_taskData user_id data =
     \<lparr>td_title = title data, td_description = or_null (description data),
      td_task_type = task_type data, td_due_date = due_date data,
      td_client_id = or_null (client_id data), td_user_id = user_id\<rparr>"

definition taskData_row :: "uuid \<Rightarrow> timestamptz \<Rightarrow> taskData \<Rightarrow> task" where
  "taskData_row new_id now d =
     \<lparr>t_id = new_id, t_user_id = td_user_id d, t_client_id = td_client_id d,
      t_title = td_title d, t_description = td_description d, t_task_type = td_task_type d,
      t_due_date = td_due_date d, t_status = pendente, t_created_at = now\<rparr>"

definition taskData_set :: "taskData \<Rightarrow> task \<Rightarrow> task" where
  "taskData_set d r =
     r\<lparr>t_title := td_title d, t_description := td_description d, t_task_type := td_task_type d,
       t_due_date := td_due_date d, t_client_id := td_client_id d, t_user_id := td_user_id d\<rparr>"

text \<open>
  \<open>onSubmit\<close> of the task form. \<open>route_id\<close> is the parameter \<open>id\<close> of the route:
  the form edits (\<open>isEditing = !!id\<close>) when it is there, and creates otherwise.
\<close>

definition TaskFormPage_onSubmit ::
  "uuid option \<Rightarrow> string option \<Rightarrow> uuid \<Rightarrow> timestamptz \<Rightarrow> TaskFormData \<Rightarrow> database \<Rightarrow> database" where
  "TaskFormPage_onSubmit user route_id new_id now data db =
     (case user of
        None \<Rightarrow> db
      | Some user_id \<Rightarrow>
          (let taskData = make_taskData user_id data in
           if truthy route_id
           then state_after db (update_tasks user (tasks_eq_id (the route_id)) (taskData_set taskData) db)
           else state_after db (insert_tasks user (taskData_row new_id now taskData) db)))"

subsection \<open>The task list\<close>

text \<open>\<open>fetchTasks\<close>: the rows the caller may see (their order is left out).\<close>

definition fetchTasks :: "uuid option \<Rightarrow> database \<Rightarrow> task list" where
  "fetchTasks user db = select_tasks user (\<lambda>r. True) db"

text \<open>
  \<open>toggleTaskComplete(task)\<close>: the row it is given is the one of the list, and the
  update goes to the row of that id.
\<close>

definition toggleTaskComplete :: "uuid option \<Rightarrow> task \<Rightarrow> database \<Rightarrow> database" where
  "toggleTaskComplete user task db =
     state_after db
       (update_tasks user (tasks_eq_id (t_id task)) (\<lambda>r. r\<lparr>t_status := newStatus task\<rparr>) db)"

subsection \<open>The client list and the client form\<close>

text \<open>\<open>handleDelete\<close> of the client list: nothing without a \<open>deleteId\<close>.\<close>

definition handleDelete :: "uuid option \<Rightarrow> string option \<Rightarrow> database \<Rightarrow> database" where
  "handleDelete user deleteId db =
     (if \<not> truthy deleteId then db
      else delete_clients user (clients_eq_id (the deleteId)) db)"

record ClientForm =
  cf_name :: string
  cf_cpf_cnpj :: string
  cf_person_type :: person_type
  cf_email :: "string option"
  cf_phone :: "string option"

record clientData =
  cd_name :: string
  cd_cpf_cnpj :: string
  cd_person_type :: person_type
  cd_email :: "string option"
  cd_phone :: "string option"
  cd_user_id :: uuid

definition make_clientData :: "uuid \<Rightarrow> ClientForm \<Rightarrow> clientData" where
  "make_clientData user_id data =
     \<lparr>cd_name = cf_name data, cd_cpf_cnpj = cf_cpf_cnpj data,
      cd_person_type = cf_person_type data, cd_email = or_null (cf_email data),
      cd_phone = or_null (cf_phone data), cd_user_id = user_id\<rparr>"

definition clientData_row :: "uuid \<Rightarrow> timestamptz \<Rightarrow> clientData \<Rightarrow> client" where
  "clientData_row new_id now d =
     \<lparr>c_id = new_id, c_user_id = cd_user_id d, c_name = cd_name d, c_cpf_cnpj = cd_cpf_cnpj d,
      c_person_type = cd_person_type d, c_email = cd_email d, c_phone = cd_phone d,
      c_created_at = now\<rparr>"

definition clientData_set :: "clientData \<Rightarrow> client \<Rightarrow> client" where
  "clientData_set d r =
     r\<lparr>c_name := cd_name d, c_cpf_cnpj := cd_cpf_cnpj d, c_person_type := cd_person_type d,
       c_email := cd_email d, c_phone := cd_phone d, c_user_id := cd_user_id d\<rparr>"

text \<open>\<open>onSubmit\<close> of the client form, with the same two branches.\<close>

definition ClientFormPage_onSubmit ::
  "uuid option \<Rightarrow> string option \<Rightarrow> uuid \<Rightarrow> timestamptz \<Rightarrow> ClientForm \<Rightarrow> database \<Rightarrow> database" where
  "ClientFormPage_onSubmit user route_id new_id now data db =
     (case user of
        None \<Rightarrow> db
      | Some user_id \<Rightarrow>
          (let clientData = make_clientData user_id data in
           if truthy route_id
           then state_after db
                  (update_clients user (clients_eq_id (the route_id)) (clientData_set clientData) db)
           else state_after db (insert_clients user (clientData_row new_id now clientData) db)))"

subsection \<open>The profile page\<close>

text \<open>\<open>onProfileSubmit\<close>, given the loaded profile (none: it returns at once).\<close>

definition onProfileSubmit :: "uuid option \<Rightarrow> profile option \<Rightarrow> string \<Rightarrow> database \<Rightarrow> database" where
  "onProfileSubmit user profile name db =
     (case profile of
        None \<Rightarrow> db
      | Some p \<Rightarrow>
          state_after db
            (update_profiles user (profiles_eq_id (p_id p)) (\<lambda>r. r\<lparr>p_name := name\<rparr>) db))"

subsection \<open>Runs of the application\<close>

text \<open>
  What the application can do to the database: a sign-up (the insertion of an identity,
  with its trigger), a sign-in, and the requests of the five handlers above.
\<close>

datatype app_op =
    Sign_up timestamptz auth_user
  | Sign_in timestamptz auth_user
  | Profile_submit "uuid option" "profile option" string
  | Client_submit "uuid option" "string option" uuid timestamptz ClientForm
  | Client_delete "uuid option" "string option"
  | Task_submit "uuid option" "string option" uuid timestamptz TaskFormData
  | Task_toggle "uuid option" task

fun step :: "app_op \<Rightarrow> database \<Rightarrow> database" where
  "step (Sign_up now u) db = state_after db (on_auth_user_created now u db)"
| "step (Sign_in now u) db = update_last_login now u db"
| "step (Profile_submit user p name) db = onProfileSubmit user p name db"
| "step (Client_submit user route_id new_id now data) db = ClientFormPage_onSubmit user route_id new_id now data db"
| "step (Client_delete user deleteId) db = handleDelete user deleteId db"
| "step (Task_submit user route_id new_id now data) db = TaskFormPage_onSubmit user route_id new_id now data db"
| "step (Task_toggle user task) db = toggleTaskComplete user task db"

fun run :: "app_op list \<Rightarrow> database \<Rightarrow> database" where
  "run [] db = db"
| "run (x # xs) db = run xs (step x db)"

definition empty_database :: database where
  "empty_database = \<lparr>auth_users = [], profiles = [], clients = [], tasks = []\<rparr>"

section \<open>Digit strings and their order\<close>

lemma length_digits [simp]: "length (digits n k) = n"
  by (induction n arbitrary: k) auto

lemma digit_char_less:
  "a < 10 \<Longrightarrow> b < 10 \<Longrightarrow> digit_char a < digit_char b \<longleftrightarrow> a < b"
  by (simp add: digit_char_def less_char_def)

lemma digit_char_inj:
  assumes "a < 10" "b < 10" "digit_char a = digit_char b"
  shows "a = b"
proof -
  have "\<not> digit_char a < digit_char b" "\<not> digit_char b < digit_char a"
    using assms(3) by simp_all
  then show ?thesis
    using assms(1,2) by (simp add: digit_char_less)
qed

lemma digit_char_not_T: "digit_char (k mod 10) \<noteq> CHR ''T''"
proof
  assume "digit_char (k mod 10) = CHR ''T''"
  then have "of_char (digit_char (k mod 10)) = (of_char (CHR ''T'') :: nat)"
    by simp
  then show False
    by (simp add: digit_char_def)
qed

lemma T_notin_digits: "CHR ''T'' \<notin> set (digits n k)"
proof (induction n arbitrary: k)
  case 0
  then show ?case by simp
next
  case (Suc n)
  then show ?case
    using digit_char_not_T [of k] by auto
qed

lemma lex_append_same_length:
  fixes xs ys :: "'a::linorder list"
  shows "length xs = length ys \<Longrightarrow> xs @ u < ys @ v \<longleftrightarrow> xs < ys \<or> xs = ys \<and> u < v"
  by (induction xs ys rule: list_induct2) auto

lemma lex_pair_linear:
  fixes qa qb ra rb :: nat
  shows "ra < 10 \<Longrightarrow> rb < 10 \<Longrightarrow>
         (qa < qb \<or> qa = qb \<and> ra < rb) \<longleftrightarrow> qa * 10 + ra < qb * 10 + rb"
  by linarith

lemma div_mod_10_lex:
  fixes a b :: nat
  shows "(a div 10 < b div 10 \<or> a div 10 = b div 10 \<and> a mod 10 < b mod 10) \<longleftrightarrow> a < b"
  using lex_pair_linear [of "a mod 10" "b mod 10" "a div 10" "b div 10"] by simp

lemma digits_less:
  "a < 10 ^ n \<Longrightarrow> b < 10 ^ n \<Longrightarrow> digits n a < digits n b \<longleftrightarrow> a < b"
proof (induction n arbitrary: a b)
  case 0
  then show ?case by simp
next
  case (Suc n)
  have q: "a div 10 < 10 ^ n" "b div 10 < 10 ^ n"
    using Suc.prems by (simp_all add: less_mult_imp_div_less mult.commute)
  have l: "digits n (a div 10) < digits n (b div 10) \<longleftrightarrow> a div 10 < b div 10"
    by (rule Suc.IH [OF q])
  have l': "digits n (b div 10) < digits n (a div 10) \<longleftrightarrow> b div 10 < a div 10"
    by (rule Suc.IH [OF q(2) q(1)])
  have e: "digits n (a div 10) = digits n (b div 10) \<longleftrightarrow> a div 10 = b div 10"
  proof
    assume h: "digits n (a div 10) = digits n (b div 10)"
    have "\<not> a div 10 < b div 10" "\<not> b div 10 < a div 10"
      using l l' h by simp_all
    then show "a div 10 = b div 10" by simp
  qed simp
  have d: "digit_char (a mod 10) < digit_char (b mod 10) \<longleftrightarrow> a mod 10 < b mod 10"
    by (rule digit_char_less) simp_all
  have "digits (Suc n) a < digits (Suc n) b \<longleftrightarrow>
        a div 10 < b div 10 \<or> a div 10 = b div 10 \<and> a mod 10 < b mod 10"
    by (simp add: lex_append_same_length l e d)
  then show ?case
    by (simp only: div_mod_10_lex)
qed

lemma digits_inj:
  assumes "a < 10 ^ n" "b < 10 ^ n" "digits n a = digits n b"
  shows "a = b"
proof -
  have "\<not> digits n a < digits n b" "\<not> digits n b < digits n a"
    using assms(3) by simp_all
  then show ?thesis
    using assms(1,2) by (simp add: digits_less)
qed

section \<open>What \<open>today\<close> is\<close>

lemma split_not_Nil: "split sep s \<noteq> []"
  by (induction s) (auto split: list.splits)

lemma split_nth_0: "split sep s ! 0 = takeWhile (\<lambda>c. c \<noteq> sep) s"
  by (induction s) (auto simp: split_not_Nil split: list.splits)

lemma takeWhile_until:
  "\<forall>c\<in>set xs. P c \<Longrightarrow> \<not> P x \<Longrightarrow> takeWhile P (xs @ x # ys) = xs"
  by (induction xs) auto

text \<open>
  Up to the year 9999 \<open>today\<close> is the text of the UTC calendar date of the instant:
  hours, minutes, seconds and milliseconds do not reach it.
\<close>

lemma today_date_text:
  assumes "utc_year now \<le> 9999"
  shows "today now = date_text (utc_calendar_date now)"
proof -
  let ?d = "digits 4 (utc_year now) @ ''-'' @ digits 2 (utc_month now) @ ''-'' @ digits 2 (utc_day now)"
  let ?r = "digits 2 (utc_hours now) @ '':'' @ digits 2 (utc_minutes now)
     @ '':'' @ digits 2 (utc_seconds now) @ ''.'' @ digits 3 (utc_milliseconds now) @ ''Z''"
  have iso: "toISOString now = ?d @ CHR ''T'' # ?r"
    using assms by (simp add: toISOString_def)
  have noT: "\<forall>c\<in>set ?d. c \<noteq> CHR ''T''"
    using T_notin_digits [of 4 "utc_year now"] T_notin_digits [of 2 "utc_month now"]
      T_notin_digits [of 2 "utc_day now"]
    by auto
  have "today now = takeWhile (\<lambda>c. c \<noteq> CHR ''T'') (?d @ CHR ''T'' # ?r)"
    by (simp only: today_def split_nth_0 iso)
  also have "\<dots> = ?d"
    using noT by (rule takeWhile_until) simp
  finally show ?thesis
    by (simp add: date_text_def utc_calendar_date_def)
qed

lemma valid_instant_date: "valid_instant now \<Longrightarrow> valid_date (utc_calendar_date now)"
  by (simp add: valid_instant_def valid_date_def utc_calendar_date_def)

text \<open>On valid dates the order of the texts is the order of the dates.\<close>

lemma date_text_less:
  assumes "valid_date a" "valid_date b"
  shows "date_text a < date_text b \<longleftrightarrow> date_before a b"
proof -
  have y: "cal_year a < 10 ^ 4" "cal_year b < 10 ^ 4"
    and m: "cal_month a < 10 ^ 2" "cal_month b < 10 ^ 2"
    and d: "cal_day a < 10 ^ 2" "cal_day b < 10 ^ 2"
    using assms by (simp_all add: valid_date_def)
  have ey: "digits 4 (cal_year a) = digits 4 (cal_year b) \<longleftrightarrow> cal_year a = cal_year b"
    using digits_inj [OF y] by auto
  have em: "digits 2 (cal_month a) = digits 2 (cal_month b) \<longleftrightarrow> cal_month a = cal_month b"
    using digits_inj [OF m] by auto
  have "date_text a < date_text b \<longleftrightarrow>
      digits 4 (cal_year a) < digits 4 (cal_year b) \<or>
      digits 4 (cal_year a) = digits 4 (cal_year b) \<and>
        (digits 2 (cal_month a) < digits 2 (cal_month b) \<or>
         digits 2 (cal_month a) = digits 2 (cal_month b) \<and>
           digits 2 (cal_day a) < digits 2 (cal_day b))"
    unfolding date_text_def
    by (simp add: lex_append_same_length)
  then show ?thesis
    by (simp only: digits_less [OF y] digits_less [OF m] digits_less [OF d] ey em date_before_def)
qed

lemma date_text_inj:
  assumes "valid_date a" "valid_date b" "date_text a = date_text b"
  shows "a = b"
proof -
  have y: "cal_year a < 10 ^ 4" "cal_year b < 10 ^ 4"
    and m: "cal_month a < 10 ^ 2" "cal_month b < 10 ^ 2"
    and d: "cal_day a < 10 ^ 2" "cal_day b < 10 ^ 2"
    using assms by (simp_all add: valid_date_def)
  have "digits 4 (cal_year a) = digits 4 (cal_year b)"
    "digits 2 (cal_month a) = digits 2 (cal_month b)"
    "digits 2 (cal_day a) = digits 2 (cal_day b)"
    using assms(3) by (simp_all add: date_text_def)
  then have "cal_year a = cal_year b" "cal_month a = cal_month b" "cal_day a = cal_day b"
    using digits_inj [OF y] digits_inj [OF m] digits_inj [OF d] by simp_all
  then show ?thesis by simp
qed

section \<open>Evaluating digit strings\<close>

lemma digit_char_simps:
  "digit_char 0 = CHR ''0''" "digit_char 1 = CHR ''1''" "digit_char 2 = CHR ''2''"
  "digit_char 3 = CHR ''3''" "digit_char 4 = CHR ''4''" "digit_char 5 = CHR ''5''"
  "digit_char 6 = CHR ''6''" "digit_char 7 = CHR ''7''" "digit_char 8 = CHR ''8''"
  "digit_char 9 = CHR ''9''" "digit_char (Suc 0) = CHR ''1''"
  by (rule of_char_eqI [where ?'a = nat], simp add: digit_char_def)+

lemma digits_2: "digits 2 k = [digit_char (k div 10 mod 10), digit_char (k mod 10)]"
  by (simp add: numeral_2_eq_2)

lemma digits_4:
  "digits 4 k = [digit_char (k div 1000 mod 10), digit_char (k div 100 mod 10),
     digit_char (k div 10 mod 10), digit_char (k mod 10)]"
proof -
  have four: "(4::nat) = Suc (Suc (Suc (Suc 0)))"
    by simp
  show ?thesis
    by (simp only: four digits.simps div_mult2_eq [symmetric]) simp
qed

lemmas date_eval =
  date_text_def utc_calendar_date_def valid_instant_def valid_date_def date_before_def
  digits_2 digits_4 digit_char_simps

section \<open>Badges and the overdue filter\<close>

lemma Tasks_row_badge_cases:
  "Tasks_row_badge now t =
     (if t_status t = concluida then Badge_Concluida
      else if t_due_date t < today now then Badge_Atrasada
      else if t_due_date t = today now then Badge_Hoje
      else Badge_Pendente)"
  by (cases "t_status t") (simp_all add: Tasks_row_badge_def Tasks_getStatusBadge_def)

lemma Dashboard_row_badge_cases:
  "Dashboard_row_badge now t =
     (if t_status t = concluida then Badge_Concluida
      else if t_due_date t < today now then Badge_Atrasada
      else if t_due_date t = today now then Badge_Hoje
      else Badge_Pendente)"
  by (cases "t_status t") (simp_all add: Dashboard_row_badge_def Dashboard_getStatusBadge_def)

lemma overdue_filter_set:
  "set (filteredTasks ''overdue'' now ts) =
     {t \<in> set ts. t_status t = pendente \<and> t_due_date t < today now}"
  by (simp add: filteredTasks_def)

text \<open>
  What the two screens compute, in terms of the UTC calendar date of the instant, for a
  due date with a four-digit year.
\<close>

lemma overdue_by_utc_date:
  assumes "valid_instant now" "valid_date due" "t_due_date t = date_text due"
  shows "(Tasks_row_badge now t = Badge_Atrasada \<longleftrightarrow>
            t_status t \<noteq> concluida \<and> date_before due (utc_calendar_date now))
       \<and> (Dashboard_row_badge now t = Badge_Atrasada \<longleftrightarrow>
            t_status t \<noteq> concluida \<and> date_before due (utc_calendar_date now))
       \<and> (t \<in> set (filteredTasks ''overdue'' now ts) \<longleftrightarrow>
            t \<in> set ts \<and> t_status t = pendente \<and> date_before due (utc_calendar_date now))"
proof -
  have y: "utc_year now \<le> 9999"
    using assms(1) by (simp add: valid_instant_def)
  have lt: "t_due_date t < today now \<longleftrightarrow> date_before due (utc_calendar_date now)"
    using date_text_less [OF assms(2) valid_instant_date [OF assms(1)]]
    by (simp add: assms(3) today_date_text [OF y])
  show ?thesis
    by (cases "t_status t")
      (simp_all add: Tasks_row_badge_cases Dashboard_row_badge_cases overdue_filter_set lt)
qed

lemma due_today_by_utc_date:
  assumes "valid_instant now" "t_status t = pendente"
    "t_due_date t = date_text (utc_calendar_date now)"
  shows "Tasks_row_badge now t = Badge_Hoje \<and> Dashboard_row_badge now t = Badge_Hoje"
proof -
  have "utc_year now \<le> 9999"
    using assms(1) by (simp add: valid_instant_def)
  then have "t_due_date t = today now"
    by (simp add: assms(3) today_date_text)
  then show ?thesis
    by (simp add: Tasks_row_badge_cases Dashboard_row_badge_cases assms(2))
qed

lemma concluida_badge:
  "t_status t = concluida \<Longrightarrow>
     Tasks_row_badge now t = Badge_Concluida \<and> Dashboard_row_badge now t = Badge_Concluida"
  by (simp add: Tasks_row_badge_cases Dashboard_row_badge_cases)

lemmas local_date_eval =
  viewer_local_date_def previous_day_def next_day_def days_in_month_def leap_year_def

section \<open>Constraints and provisioning\<close>

lemma enforce_constraints_Inr:
  "enforce_constraints db = Inr db' \<longleftrightarrow> check_constraints db = None \<and> db' = db"
  by (auto simp: enforce_constraints_def split: option.splits)

lemma enforce_constraints_Inl:
  "enforce_constraints db = Inl e \<longleftrightarrow> check_constraints db = Some e"
  by (auto simp: enforce_constraints_def split: option.splits)

lemma check_constraints_None:
  "check_constraints db = None \<longleftrightarrow>
     distinct (map u_id (auth_users db)) \<and>
     distinct (map p_id (profiles db)) \<and>
     (\<forall>p\<in>set (profiles db). p_id p \<in> u_id ` set (auth_users db)) \<and>
     distinct (map c_id (clients db)) \<and>
     (\<forall>c\<in>set (clients db). c_user_id c \<in> p_id ` set (profiles db)) \<and>
     distinct (map t_id (tasks db)) \<and>
     (\<forall>t\<in>set (tasks db). t_user_id t \<in> p_id ` set (profiles db)) \<and>
     (\<forall>t\<in>set (tasks db). \<forall>c. t_client_id t = Some c \<longrightarrow> c \<in> c_id ` set (clients db))"
  by (auto simp: check_constraints_def list_all_iff split: option.splits)

text \<open>The row that \<open>handle_new_user\<close> inserts, when it inserts one.\<close>

lemma handle_new_user_Inr:
  assumes "handle_new_user now NEW db = Inr db'"
  obtains name email category a where
    "cast_account_type (get_text (u_raw_user_meta_data NEW) ''account_type'') = Inr category"
    "COALESCE (get_text (u_raw_user_meta_data NEW) ''name'') (u_email NEW) = Some name"
    "u_email NEW = Some email"
    "COALESCE category (Some contador) = Some a"
    "db' = db\<lparr>profiles := profiles db @
        [\<lparr>p_id = u_id NEW, p_name = name, p_email = email, p_account_type = a,
          p_created_at = now, p_last_login = Some now\<rparr>]\<rparr>"
    "check_constraints db' = None"
  using assms unfolding handle_new_user_def
  by (auto simp: enforce_constraints_Inr split: sum.splits option.splits)

lemma on_auth_user_created_Inr:
  assumes "on_auth_user_created now NEW db = Inr db'"
  shows "check_constraints (db\<lparr>auth_users := auth_users db @ [NEW]\<rparr>) = None"
    and "handle_new_user now NEW (db\<lparr>auth_users := auth_users db @ [NEW]\<rparr>) = Inr db'"
  using assms unfolding on_auth_user_created_def
  by (auto simp: enforce_constraints_Inr split: sum.splits)

lemma find_snoc_fresh:
  "\<forall>x\<in>set xs. \<not> P x \<Longrightarrow> P y \<Longrightarrow> find P (xs @ [y]) = Some y"
  by (induction xs) auto

lemma signup_profile:
  assumes "on_auth_user_created now NEW db = Inr db'"
  obtains name email category a where
    "cast_account_type (get_text (u_raw_user_meta_data NEW) ''account_type'') = Inr category"
    "COALESCE (get_text (u_raw_user_meta_data NEW) ''name'') (u_email NEW) = Some name"
    "u_email NEW = Some email"
    "COALESCE category (Some contador) = Some a"
    "db' = db\<lparr>auth_users := auth_users db @ [NEW], profiles := profiles db @
        [\<lparr>p_id = u_id NEW, p_name = name, p_email = email, p_account_type = a,
          p_created_at = now, p_last_login = Some now\<rparr>]\<rparr>"
    "profile_of db' (u_id NEW) =
        Some \<lparr>p_id = u_id NEW, p_name = name, p_email = email, p_account_type = a,
          p_created_at = now, p_last_login = Some now\<rparr>"
    "check_constraints db' = None"
    "u_id NEW \<notin> set (map p_id (profiles db))"
    "u_id NEW \<notin> set (map u_id (auth_users db))"
proof -
  let ?db1 = "db\<lparr>auth_users := auth_users db @ [NEW]\<rparr>"
  have h: "handle_new_user now NEW ?db1 = Inr db'"
    by (rule on_auth_user_created_Inr(2) [OF assms])
  have c1: "check_constraints ?db1 = None"
    by (rule on_auth_user_created_Inr(1) [OF assms])
  from h obtain name email category a where
    f: "cast_account_type (get_text (u_raw_user_meta_data NEW) ''account_type'') = Inr category"
      "COALESCE (get_text (u_raw_user_meta_data NEW) ''name'') (u_email NEW) = Some name"
      "u_email NEW = Some email"
      "COALESCE category (Some contador) = Some a"
    and d: "db' = ?db1\<lparr>profiles := profiles ?db1 @
        [\<lparr>p_id = u_id NEW, p_name = name, p_email = email, p_account_type = a,
          p_created_at = now, p_last_login = Some now\<rparr>]\<rparr>"
    and c: "check_constraints db' = None"
    by (rule handle_new_user_Inr)
  have fresh_p: "u_id NEW \<notin> set (map p_id (profiles db))"
    using c by (simp add: d check_constraints_None)
  have fresh_u: "u_id NEW \<notin> set (map u_id (auth_users db))"
    using c1 by (simp add: check_constraints_None)
  have "profile_of db' (u_id NEW) =
        Some \<lparr>p_id = u_id NEW, p_name = name, p_email = email, p_account_type = a,
          p_created_at = now, p_last_login = Some now\<rparr>"
  proof -
    have "\<forall>p\<in>set (profiles db). \<not> p_id p = u_id NEW"
      using fresh_p by force
    then show ?thesis
      unfolding profile_of_def d by (simp add: find_snoc_fresh)
  qed
  then show thesis
    using that [OF f _ _ c fresh_p fresh_u] d by simp
qed

lemma signup_succeeds:
  assumes "check_constraints db = None" "u_id NEW \<notin> set (map u_id (auth_users db))"
    "u_email NEW = Some email"
    "cast_account_type (get_text (u_raw_user_meta_data NEW) ''account_type'') = Inr category"
  shows "\<exists>db'. on_auth_user_created now NEW db = Inr db'"
proof -
  let ?db1 = "db\<lparr>auth_users := auth_users db @ [NEW]\<rparr>"
  have fk: "\<forall>p\<in>set (profiles db). p_id p \<in> u_id ` set (auth_users db)"
    using assms(1) by (simp add: check_constraints_None)
  have fresh_p: "u_id NEW \<notin> set (map p_id (profiles db))"
    using fk assms(2) by auto
  have c1: "check_constraints ?db1 = None"
    using assms(1,2) by (simp add: check_constraints_None)
  obtain name where n: "COALESCE (get_text (u_raw_user_meta_data NEW) ''name'') (Some email) = Some name"
    by (cases "get_text (u_raw_user_meta_data NEW) ''name''") (simp_all add: COALESCE_def)
  obtain a where a: "COALESCE category (Some contador) = Some a"
    by (cases category) (simp_all add: COALESCE_def)
  have c2: "check_constraints (?db1\<lparr>profiles := profiles ?db1 @
        [\<lparr>p_id = u_id NEW, p_name = name, p_email = email, p_account_type = a,
          p_created_at = now, p_last_login = Some now\<rparr>]\<rparr>) = None"
    using c1 fresh_p by (simp add: check_constraints_None)
  show ?thesis
    using c2
    by (simp add: on_auth_user_created_def handle_new_user_def enforce_constraints_def
        c1 assms(3,4) n a)
qed

lemmas signup_eval =
  on_auth_user_created_def handle_new_user_def enforce_constraints_def check_constraints_def
  get_text_def COALESCE_def cast_account_type_def empty_database_def state_after_def
  profile_of_def profile_count_def one_profile_each_def


lemma profile_count_signup:
  "profile_count (db\<lparr>auth_users := us, profiles := profiles db @ [r]\<rparr>) i =
     profile_count db i + (if p_id r = i then 1 else 0)"
  by (simp add: profile_count_def)

lemma profile_count_fresh:
  "i \<notin> set (map p_id (profiles db)) \<Longrightarrow> profile_count db i = 0"
  by (auto simp: profile_count_def filter_empty_conv)


section \<open>Sign-ins\<close>

lemma find_map_same_key:
  "(\<And>x. P (f x) = P x) \<Longrightarrow> find P (map f xs) = map_option f (find P xs)"
  by (induction xs) auto

lemma profile_of_update_last_login:
  "profile_of (update_last_login t u db) i =
     map_option (\<lambda>p. if p_id p = u_id u then p\<lparr>p_last_login := Some t\<rparr> else p) (profile_of db i)"
  unfolding profile_of_def update_last_login_def
  by (simp, rule find_map_same_key) simp

lemma profile_ids_update_last_login:
  "map p_id (profiles (update_last_login t u db)) = map p_id (profiles db)"
  by (simp add: update_last_login_def comp_def)

lemma find_Some_ex: "(\<exists>y. find P xs = Some y) \<longleftrightarrow> (\<exists>x\<in>set xs. P x)"
  by (induction xs) auto

lemma profile_of_Some_iff: "(\<exists>p. profile_of db i = Some p) \<longleftrightarrow> i \<in> set (map p_id (profiles db))"
  unfolding profile_of_def find_Some_ex by auto

lemma last_login_update_last_login:
  assumes "u_id u \<in> set (map p_id (profiles db))"
  shows "last_login (update_last_login t u db) (u_id u) = Some t"
proof -
  obtain p where p: "profile_of db (u_id u) = Some p"
    using assms profile_of_Some_iff by blast
  then have "p_id p = u_id u"
    by (auto simp: profile_of_def find_Some_iff)
  then show ?thesis
    by (simp add: last_login_def profile_of_update_last_login p)
qed

lemma last_login_history_eq:
  "u_id u \<in> set (map p_id (profiles db)) \<Longrightarrow> last_login_history u ts db = map Some ts"
proof (induction ts arbitrary: db)
  case Nil
  then show ?case by simp
next
  case (Cons t ts)
  have "u_id u \<in> set (map p_id (profiles (update_last_login t u db)))"
    using Cons.prems by (simp only: profile_ids_update_last_login)
  then show ?case
    using Cons.IH Cons.prems by (simp add: last_login_update_last_login)
qed

lemma sign_ins_snoc: "sign_ins u (ts @ [t]) db = update_last_login t u (sign_ins u ts db)"
  by (induction ts arbitrary: db) simp_all

lemma profile_ids_sign_ins: "map p_id (profiles (sign_ins u ts db)) = map p_id (profiles db)"
  by (induction ts arbitrary: db) (simp_all add: profile_ids_update_last_login)

lemma last_login_sign_ins:
  assumes "u_id u \<in> set (map p_id (profiles db))" "ts \<noteq> []"
  shows "last_login (sign_ins u ts db) (u_id u) = Some (last ts)"
proof -
  obtain ts' t where ts: "ts = ts' @ [t]"
    using assms(2) by (meson rev_exhaust)
  have "u_id u \<in> set (map p_id (profiles (sign_ins u ts' db)))"
    using assms(1) by (simp only: profile_ids_sign_ins)
  then show ?thesis
    by (simp add: ts sign_ins_snoc last_login_update_last_login)
qed

text \<open>A sign-in writes \<open>last_login\<close> and nothing else, and only in the rows of the identity.\<close>

lemma map_filter_untouched:
  "map (\<lambda>x. if P x then f x else x) (filter (\<lambda>x. \<not> P x) xs) = filter (\<lambda>x. \<not> P x) xs"
  by (induction xs) auto

lemma update_last_login_frame:
  "map (\<lambda>p. p\<lparr>p_last_login := None\<rparr>) (profiles (update_last_login t u db)) =
     map (\<lambda>p. p\<lparr>p_last_login := None\<rparr>) (profiles db)"
  "filter (\<lambda>p. p_id p \<noteq> u_id u) (profiles (update_last_login t u db)) =
     filter (\<lambda>p. p_id p \<noteq> u_id u) (profiles db)"
  "auth_users (update_last_login t u db) = auth_users db"
  "clients (update_last_login t u db) = clients db"
  "tasks (update_last_login t u db) = tasks db"
  by (simp_all add: update_last_login_def filter_map comp_def map_filter_untouched)

lemma sign_ins_frame:
  "map (\<lambda>p. p\<lparr>p_last_login := None\<rparr>) (profiles (sign_ins u ts db)) =
     map (\<lambda>p. p\<lparr>p_last_login := None\<rparr>) (profiles db)
   \<and> filter (\<lambda>p. p_id p \<noteq> u_id u) (profiles (sign_ins u ts db)) =
     filter (\<lambda>p. p_id p \<noteq> u_id u) (profiles db)
   \<and> auth_users (sign_ins u ts db) = auth_users db
   \<and> clients (sign_ins u ts db) = clients db
   \<and> tasks (sign_ins u ts db) = tasks db"
  by (induction ts arbitrary: db) (simp_all add: update_last_login_frame)


section \<open>Deleting clients\<close>

text \<open>What a deletion of clients does to the tasks, by the ids of the deleted rows.\<close>

lemma delete_clients_tasks:
  "tasks (delete_clients uid cond db) =
     map (\<lambda>t. if t_client_id t \<in> Some `
                  c_id ` {r \<in> set (clients db). uid = Some (c_user_id r) \<and> cond r}
               then t\<lparr>t_client_id := None\<rparr> else t) (tasks db)"
  unfolding delete_clients_def Let_def view_own_clients_def delete_own_clients_def
  by (auto split: option.splits)

lemma delete_clients_clients:
  "clients (delete_clients uid cond db) =
     filter (\<lambda>r. \<not> (uid = Some (c_user_id r) \<and> cond r)) (clients db)"
  unfolding delete_clients_def Let_def view_own_clients_def delete_own_clients_def
  by simp

lemma delete_clients_others:
  "auth_users (delete_clients uid cond db) = auth_users db"
  "profiles (delete_clients uid cond db) = profiles db"
  by (simp_all add: delete_clients_def Let_def)

lemma handleDelete_eq:
  "i \<noteq> [] \<Longrightarrow> handleDelete user (Some i) db = delete_clients user (clients_eq_id i) db"
  by (simp add: handleDelete_def truthy_def)


section \<open>Row-level security\<close>

lemma filter_map_untouched:
  "\<forall>x\<in>set xs. g x \<noteq> x \<longrightarrow> \<not> P x \<and> \<not> P (g x) \<Longrightarrow> filter P (map g xs) = filter P xs"
  by (induction xs) auto

lemma filter_filter_disjoint:
  "\<forall>x\<in>set xs. Q x \<longrightarrow> \<not> P x \<Longrightarrow> filter P (filter (\<lambda>x. \<not> Q x) xs) = filter P xs"
  by (induction xs) auto

lemma state_after_cases:
  "state_after db r = db \<or> r = Inr (state_after db r)"
  by (cases r) (simp_all add: state_after_def)

text \<open>A caller reads only rows of its own, and what it reads depends only on them.\<close>

lemma select_clients_own:
  "select_clients (Some v) cond db = filter cond (clients_of v db)"
  by (auto simp: select_clients_def clients_of_def view_own_clients_def filter_filter conj_commute
      intro: filter_cong)

lemma select_tasks_own:
  "select_tasks (Some v) cond db = filter cond (tasks_of v db)"
  by (auto simp: select_tasks_def tasks_of_def view_own_tasks_def filter_filter conj_commute
      intro: filter_cong)

lemma select_no_session:
  "select_clients None cond db = []" "select_tasks None cond' db = []"
  by (simp_all add: select_clients_def select_tasks_def view_own_clients_def view_own_tasks_def)

text \<open>What each statement of a caller \<open>v\<close> leaves of the rows of another owner \<open>u\<close>.\<close>

lemma insert_clients_other:
  assumes "u \<noteq> v"
  shows "clients_of u (state_after db (insert_clients (Some v) r db)) = clients_of u db"
    and "tasks (state_after db (insert_clients (Some v) r db)) = tasks db"
  using assms
  by (auto simp: insert_clients_def insert_own_clients_def state_after_def clients_of_def
      enforce_constraints_def split: option.splits)

lemma insert_tasks_other:
  assumes "u \<noteq> v"
  shows "tasks_of u (state_after db (insert_tasks (Some v) r db)) = tasks_of u db"
    and "clients (state_after db (insert_tasks (Some v) r db)) = clients db"
  using assms
  by (auto simp: insert_tasks_def insert_own_tasks_def state_after_def tasks_of_def
      enforce_constraints_def split: option.splits)

lemma update_clients_other:
  assumes "u \<noteq> v"
  shows "clients_of u (state_after db (update_clients (Some v) cond SET db)) = clients_of u db"
    and "tasks (state_after db (update_clients (Some v) cond SET db)) = tasks db"
proof -
  let ?hit = "\<lambda>r. view_own_clients (Some v) r \<and> update_own_clients (Some v) r \<and> cond r"
  have "filter (\<lambda>r. c_user_id r = u) (map (\<lambda>r. if ?hit r then SET r else r) (clients db)) =
        filter (\<lambda>r. c_user_id r = u) (clients db)"
    if "list_all (\<lambda>r. update_own_clients (Some v) (SET r)) (filter ?hit (clients db))"
    using that assms
    by (intro filter_map_untouched) (auto simp: list_all_iff update_own_clients_def)
  then show "clients_of u (state_after db (update_clients (Some v) cond SET db)) = clients_of u db"
    by (auto simp: update_clients_def Let_def state_after_def clients_of_def
        enforce_constraints_def split: option.splits)
  show "tasks (state_after db (update_clients (Some v) cond SET db)) = tasks db"
    by (auto simp: update_clients_def Let_def state_after_def enforce_constraints_def
        split: option.splits)
qed

lemma update_tasks_other:
  assumes "u \<noteq> v"
  shows "tasks_of u (state_after db (update_tasks (Some v) cond SET db)) = tasks_of u db"
    and "clients (state_after db (update_tasks (Some v) cond SET db)) = clients db"
proof -
  let ?hit = "\<lambda>r. view_own_tasks (Some v) r \<and> update_own_tasks (Some v) r \<and> cond r"
  have "filter (\<lambda>r. t_user_id r = u) (map (\<lambda>r. if ?hit r then SET r else r) (tasks db)) =
        filter (\<lambda>r. t_user_id r = u) (tasks db)"
    if "list_all (\<lambda>r. update_own_tasks (Some v) (SET r)) (filter ?hit (tasks db))"
    using that assms
    by (intro filter_map_untouched) (auto simp: list_all_iff update_own_tasks_def)
  then show "tasks_of u (state_after db (update_tasks (Some v) cond SET db)) = tasks_of u db"
    by (auto simp: update_tasks_def Let_def state_after_def tasks_of_def
        enforce_constraints_def split: option.splits)
  show "clients (state_after db (update_tasks (Some v) cond SET db)) = clients db"
    by (auto simp: update_tasks_def Let_def state_after_def enforce_constraints_def
        split: option.splits)
qed

lemma delete_tasks_other:
  assumes "u \<noteq> v"
  shows "tasks_of u (delete_tasks (Some v) cond db) = tasks_of u db"
    and "clients (delete_tasks (Some v) cond db) = clients db"
  using assms
  by (auto simp: delete_tasks_def Let_def tasks_of_def view_own_tasks_def delete_own_tasks_def
      intro!: filter_filter_disjoint [where Q = "\<lambda>r. v = t_user_id r \<and> cond r", simplified])

lemma delete_clients_other:
  assumes "u \<noteq> v"
  shows "clients_of u (delete_clients (Some v) cond db) = clients_of u db"
  using assms
  by (auto simp: delete_clients_clients clients_of_def
      intro!: filter_filter_disjoint [where Q = "\<lambda>r. v = c_user_id r \<and> cond r", simplified])

lemma filter_map_commute:
  "(\<And>x. P (g x) = P x) \<Longrightarrow> filter P (map g xs) = map g (filter P xs)"
  by (induction xs) auto

lemma delete_clients_tasks_of:
  "tasks_of u (delete_clients uid cond db) =
     map (\<lambda>t. if t_client_id t \<in> Some `
                  c_id ` {r \<in> set (clients db). uid = Some (c_user_id r) \<and> cond r}
               then t\<lparr>t_client_id := None\<rparr> else t) (tasks_of u db)"
  unfolding tasks_of_def delete_clients_tasks
  by (rule filter_map_commute) simp

lemma delete_clients_tasks_cleared:
  "map (\<lambda>t. t\<lparr>t_client_id := None\<rparr>) (tasks_of u (delete_clients uid cond db)) =
     map (\<lambda>t. t\<lparr>t_client_id := None\<rparr>) (tasks_of u db)"
  by (simp add: delete_clients_tasks_of)

lemma delete_clients_tasks_unreferenced:
  assumes "\<forall>t\<in>set (tasks_of u db). \<forall>c. t_client_id t = Some c \<longrightarrow> c \<notin> c_id ` set (clients_of v db)"
  shows "tasks_of u (delete_clients (Some v) cond db) = tasks_of u db"
proof -
  have "t_client_id t \<notin> Some ` c_id ` {r \<in> set (clients db). Some v = Some (c_user_id r) \<and> cond r}"
    if "t \<in> set (tasks_of u db)" for t
  proof
    assume "t_client_id t \<in> Some ` c_id ` {r \<in> set (clients db). Some v = Some (c_user_id r) \<and> cond r}"
    then obtain r where r: "t_client_id t = Some (c_id r)" "r \<in> set (clients db)" "c_user_id r = v"
      by auto
    then have "c_id r \<in> c_id ` set (clients_of v db)"
      by (auto simp: clients_of_def)
    then show False
      using assms that r(1) by blast
  qed
  then show ?thesis
    unfolding delete_clients_tasks_of by (intro map_idI) simp
qed

lemma tasks_of_cong: "tasks db' = tasks db \<Longrightarrow> tasks_of u db' = tasks_of u db"
  by (simp add: tasks_of_def)

lemma clients_of_cong: "clients db' = clients db \<Longrightarrow> clients_of u db' = clients_of u db"
  by (simp add: clients_of_def)

text \<open>One statement of \<open>v\<close>, seen from another owner \<open>u\<close>.\<close>

lemma execute_other_clients:
  assumes "u \<noteq> v"
  shows "clients_of u (execute (Some v) st db) = clients_of u db"
proof (cases st)
  case (Insert_client r)
  then show ?thesis
    by (simp add: insert_clients_other(1) [OF assms])
next
  case (Update_clients cond SET)
  then show ?thesis
    by (simp add: update_clients_other(1) [OF assms])
next
  case (Delete_clients cond)
  then show ?thesis
    by (simp add: delete_clients_other [OF assms])
next
  case (Insert_task r)
  then show ?thesis
    by (simp add: clients_of_cong [OF insert_tasks_other(2) [OF assms]])
next
  case (Update_tasks cond SET)
  then show ?thesis
    by (simp add: clients_of_cong [OF update_tasks_other(2) [OF assms]])
next
  case (Delete_tasks cond)
  then show ?thesis
    by (simp add: clients_of_cong [OF delete_tasks_other(2) [OF assms]])
qed

lemma execute_other_tasks_exact:
  assumes "u \<noteq> v"
    and "(\<forall>cond. st \<noteq> Delete_clients cond) \<or>
         (\<forall>t\<in>set (tasks_of u db). \<forall>c. t_client_id t = Some c \<longrightarrow> c \<notin> c_id ` set (clients_of v db))"
  shows "tasks_of u (execute (Some v) st db) = tasks_of u db"
proof (cases st)
  case (Insert_client r)
  then show ?thesis
    by (simp add: tasks_of_cong [OF insert_clients_other(2) [OF assms(1)]])
next
  case (Update_clients cond SET)
  then show ?thesis
    by (simp add: tasks_of_cong [OF update_clients_other(2) [OF assms(1)]])
next
  case (Delete_clients cond)
  then show ?thesis
    using assms(2) by (simp add: delete_clients_tasks_unreferenced)
next
  case (Insert_task r)
  then show ?thesis
    by (simp add: insert_tasks_other(1) [OF assms(1)])
next
  case (Update_tasks cond SET)
  then show ?thesis
    by (simp add: update_tasks_other(1) [OF assms(1)])
next
  case (Delete_tasks cond)
  then show ?thesis
    by (simp add: delete_tasks_other(1) [OF assms(1)])
qed

lemma execute_other_tasks:
  assumes "u \<noteq> v"
  shows "map (\<lambda>t. t\<lparr>t_client_id := None\<rparr>) (tasks_of u (execute (Some v) st db)) =
         map (\<lambda>t. t\<lparr>t_client_id := None\<rparr>) (tasks_of u db)"
proof (cases "\<exists>cond. st = Delete_clients cond")
  case True
  then show ?thesis
    by (auto simp: delete_clients_tasks_cleared)
next
  case False
  then show ?thesis
    by (simp add: execute_other_tasks_exact [OF assms])
qed

lemma execute_all_other:
  "u \<noteq> v \<Longrightarrow>
     clients_of u (execute_all (Some v) sts db) = clients_of u db \<and>
     map (\<lambda>t. t\<lparr>t_client_id := None\<rparr>) (tasks_of u (execute_all (Some v) sts db)) =
       map (\<lambda>t. t\<lparr>t_client_id := None\<rparr>) (tasks_of u db)"
  by (induction sts arbitrary: db) (simp_all add: execute_other_clients execute_other_tasks)

section \<open>The completion toggle\<close>

text \<open>The constraints look at the keys of the tasks only.\<close>

lemma check_constraints_tasks_keys:
  assumes "map t_id ts = map t_id (tasks db)" "map t_user_id ts = map t_user_id (tasks db)"
    "map t_client_id ts = map t_client_id (tasks db)"
  shows "check_constraints (db\<lparr>tasks := ts\<rparr>) = check_constraints db"
proof -
  have u: "list_all (\<lambda>t. t_user_id t \<in> S) xs = list_all (\<lambda>x. x \<in> S) (map t_user_id xs)"
    for S and xs :: "task list"
    by (simp add: list.pred_map comp_def)
  have c: "list_all (\<lambda>t. case t_client_id t of None \<Rightarrow> True | Some c \<Rightarrow> c \<in> S) xs =
      list_all (\<lambda>x. case x of None \<Rightarrow> True | Some c \<Rightarrow> c \<in> S) (map t_client_id xs)"
    for S and xs :: "task list"
    by (simp add: list.pred_map comp_def)
  show ?thesis
    unfolding check_constraints_def by (simp add: u c assms)
qed

lemma update_tasks_status:
  assumes "check_constraints db = None"
  shows "update_tasks uid cond (\<lambda>r. r\<lparr>t_status := s\<rparr>) db =
     Inr (db\<lparr>tasks := map (\<lambda>r. if uid = Some (t_user_id r) \<and> cond r then r\<lparr>t_status := s\<rparr> else r)
                          (tasks db)\<rparr>)"
proof -
  let ?ts = "map (\<lambda>r. if uid = Some (t_user_id r) \<and> cond r then r\<lparr>t_status := s\<rparr> else r) (tasks db)"
  have "check_constraints (db\<lparr>tasks := ?ts\<rparr>) = check_constraints db"
    by (rule check_constraints_tasks_keys) (simp_all add: comp_def if_distrib cong: if_cong)
  then show ?thesis
    using assms
    by (simp add: update_tasks_def Let_def view_own_tasks_def update_own_tasks_def
        enforce_constraints_def list_all_iff)
qed

lemma toggleTaskComplete_tasks:
  assumes "check_constraints db = None"
  shows "toggleTaskComplete (Some uid) t db =
     db\<lparr>tasks := map (\<lambda>r. if t_user_id r = uid \<and> t_id r = t_id t
                           then r\<lparr>t_status := newStatus t\<rparr> else r) (tasks db)\<rparr>"
  by (simp add: toggleTaskComplete_def update_tasks_status [OF assms] state_after_def
      tasks_eq_id_def eq_commute [of uid] cong: if_cong)

lemma toggleTaskComplete_constraints:
  assumes "check_constraints db = None"
  shows "check_constraints (toggleTaskComplete (Some uid) t db) = None"
  unfolding toggleTaskComplete_tasks [OF assms]
  using assms
  by (subst check_constraints_tasks_keys) (simp_all add: comp_def if_distrib cong: if_cong)

lemma distinct_key_unique:
  "distinct (map f xs) \<Longrightarrow> x \<in> set xs \<Longrightarrow> y \<in> set xs \<Longrightarrow> f x = f y \<Longrightarrow> x = y"
  by (meson distinct_map inj_on_def)

text \<open>Toggling a task of one's own rewrites that row and no other.\<close>

lemma toggle_own_task:
  assumes "check_constraints db = None" "t \<in> set (tasks db)" "t_user_id t = uid"
  shows "tasks (toggleTaskComplete (Some uid) t' db) =
     (if t_id t' = t_id t
      then map (\<lambda>r. if r = t then t\<lparr>t_status := newStatus t'\<rparr> else r) (tasks db)
      else tasks (toggleTaskComplete (Some uid) t' db))"
proof -
  have d: "distinct (map t_id (tasks db))"
    using assms(1) by (simp add: check_constraints_None)
  have "(t_user_id r = uid \<and> t_id r = t_id t) = (r = t)" if "r \<in> set (tasks db)" for r
    using distinct_key_unique [OF d that assms(2)] assms(3) by auto
  then show ?thesis
    by (auto simp: toggleTaskComplete_tasks [OF assms(1)])
qed

section \<open>The status of the tasks along a run\<close>

text \<open>What each request leaves of the table of tasks.\<close>

lemma enforce_constraints_cases:
  "state_after db (enforce_constraints db') = db \<or> state_after db (enforce_constraints db') = db'"
  by (simp add: enforce_constraints_def state_after_def split: option.splits)

lemma signup_tasks: "tasks (state_after db (on_auth_user_created now u db)) = tasks db"
proof (cases "on_auth_user_created now u db")
  case (Inl e)
  then show ?thesis by (simp add: state_after_def)
next
  case (Inr db')
  then show ?thesis
    by (rule signup_profile) (simp add: state_after_def Inr)
qed

lemma insert_clients_tasks: "tasks (state_after db (insert_clients uid r db)) = tasks db"
  using enforce_constraints_cases [of db "db\<lparr>clients := clients db @ [r]\<rparr>"]
  by (auto simp: insert_clients_def state_after_def)

lemma update_clients_tasks: "tasks (state_after db (update_clients uid cond SET db)) = tasks db"
  by (auto simp: update_clients_def Let_def state_after_def enforce_constraints_def
      split: option.splits)

lemma update_profiles_tasks: "tasks (state_after db (update_profiles uid cond SET db)) = tasks db"
  by (auto simp: update_profiles_def Let_def state_after_def enforce_constraints_def
      split: option.splits)

lemma insert_tasks_cases:
  "tasks (state_after db (insert_tasks uid r db)) = tasks db \<or>
   tasks (state_after db (insert_tasks uid r db)) = tasks db @ [r]"
  by (auto simp: insert_tasks_def state_after_def enforce_constraints_def split: option.splits)

lemma update_tasks_cases:
  "tasks (state_after db (update_tasks uid cond SET db)) = tasks db \<or>
   tasks (state_after db (update_tasks uid cond SET db)) =
     map (\<lambda>r. if view_own_tasks uid r \<and> update_own_tasks uid r \<and> cond r then SET r else r) (tasks db)"
  by (auto simp: update_tasks_def Let_def state_after_def enforce_constraints_def
      split: option.splits)

lemma handleDelete_statuses: "map t_status (tasks (handleDelete user deleteId db)) = map t_status (tasks db)"
  by (auto simp: handleDelete_def delete_clients_def Let_def comp_def split: option.splits)

lemma Task_edit_statuses:
  assumes "truthy route_id"
  shows "map t_status (tasks (TaskFormPage_onSubmit user route_id new_id now data db)) =
         map t_status (tasks db)"
proof (cases user)
  case None
  then show ?thesis by (simp add: TaskFormPage_onSubmit_def)
next
  case (Some user_id)
  have s: "t_status (taskData_set d r) = t_status r" for d r
    by (simp add: taskData_set_def)
  show ?thesis
    using update_tasks_cases [of db user "tasks_eq_id (the route_id)"
        "taskData_set (make_taskData user_id data)"] assms
    by (auto simp: TaskFormPage_onSubmit_def Some Let_def s)
qed

lemma Task_create_rows:
  assumes "\<not> truthy route_id" "t \<in> set (tasks (TaskFormPage_onSubmit user route_id new_id now data db))"
  shows "t \<in> set (tasks db) \<or> t_status t = pendente"
proof (cases user)
  case None
  then show ?thesis using assms by (simp add: TaskFormPage_onSubmit_def)
next
  case (Some user_id)
  then show ?thesis
    using assms
      insert_tasks_cases [of db user "taskData_row new_id now (make_taskData user_id data)"]
    by (auto simp: TaskFormPage_onSubmit_def Let_def taskData_row_def)
qed

lemma toggle_rows:
  assumes "t \<in> set (tasks (toggleTaskComplete user task db))"
  shows "t \<in> set (tasks db) \<or> t_status t = pendente \<or> t_status t = concluida"
  using assms update_tasks_cases [of db user "tasks_eq_id (t_id task)" "\<lambda>r. r\<lparr>t_status := newStatus task\<rparr>"]
  by (auto simp: toggleTaskComplete_def newStatus_def split: if_splits)

lemma step_no_atrasada:
  assumes "\<forall>t\<in>set (tasks db). t_status t \<noteq> atrasada"
  shows "\<forall>t\<in>set (tasks (step x db)). t_status t \<noteq> atrasada"
proof (cases x)
  case (Sign_up now u)
  then show ?thesis using assms by (simp add: signup_tasks)
next
  case (Sign_in now u)
  then show ?thesis using assms by (simp add: update_last_login_frame)
next
  case (Profile_submit user p name)
  then show ?thesis
    using assms by (cases p) (simp_all add: onProfileSubmit_def update_profiles_tasks)
next
  case (Client_submit user route_id new_id now data)
  then show ?thesis
    using assms
    by (cases user) (simp_all add: ClientFormPage_onSubmit_def Let_def
        insert_clients_tasks update_clients_tasks)
next
  case (Client_delete user deleteId)
  have "set (map t_status (tasks (handleDelete user deleteId db))) = set (map t_status (tasks db))"
    by (simp only: handleDelete_statuses)
  then have "t_status ` set (tasks (handleDelete user deleteId db)) = t_status ` set (tasks db)"
    by simp
  then show ?thesis
    using assms Client_delete by (metis imageE imageI step.simps(5))
next
  case (Task_submit user route_id new_id now data)
  show ?thesis
  proof (cases "truthy route_id")
    case True
    have "set (map t_status (tasks (TaskFormPage_onSubmit user route_id new_id now data db))) =
        set (map t_status (tasks db))"
      by (simp only: Task_edit_statuses [OF True])
    then have "t_status ` set (tasks (TaskFormPage_onSubmit user route_id new_id now data db)) =
        t_status ` set (tasks db)"
      by simp
    then show ?thesis
      using assms Task_submit by (metis imageE imageI step.simps(6))
  next
    case False
    have "t_status t \<noteq> atrasada"
      if "t \<in> set (tasks (TaskFormPage_onSubmit user route_id new_id now data db))" for t
      using Task_create_rows [OF False that] assms by auto
    then show ?thesis
      using Task_submit by simp
  qed
next
  case (Task_toggle user task)
  have "t_status t \<noteq> atrasada" if "t \<in> set (tasks (toggleTaskComplete user task db))" for t
    using toggle_rows [OF that] assms by auto
  then show ?thesis
    using Task_toggle by simp
qed

lemma run_no_atrasada:
  "\<forall>t\<in>set (tasks db). t_status t \<noteq> atrasada \<Longrightarrow>
   \<forall>t\<in>set (tasks (run ops db)). t_status t \<noteq> atrasada"
proof (induction ops arbitrary: db)
  case Nil
  then show ?case by simp
next
  case (Cons x ops)
  show ?case
    using Cons.IH [OF step_no_atrasada [OF Cons.prems]] by simp
qed

lemma not_atrasada: "s \<noteq> atrasada \<longleftrightarrow> s = pendente \<or> s = concluida"
  by (cases s) simp_all

section \<open>Claims about the list screens\<close>

text \<open>
  C1. The claim: overdue exactly when the stored status is \<open>pendente\<close> and the due date
  is strictly earlier than the current date. The screens break it on two inputs.
  At noon (UTC) on 1 June 2024 a pending task due on 1 January of the year 10000 gets
  the badge \<open>Atrasada\<close> on the task list and on the dashboard, and the \<open>overdue\<close> filter
  keeps it: the due date and \<open>today\<close> are compared as texts, and \<open>10000-01-01\<close> is
  below \<open>2024-06-01\<close>. At 01:30 (UTC) on 2 June 2024, for a viewer three hours behind
  UTC, the local date is 1 June 2024; a pending task due on that date, which is not
  earlier than the viewer's current date, gets the badge \<open>Atrasada\<close> and is kept by the
  \<open>overdue\<close> filter: \<open>today\<close> is the UTC date.
\<close>

theorem overdue_against_current_date:
  "Tasks_row_badge
     \<lparr>utc_year = 2024, utc_month = 6, utc_day = 1, utc_hours = 12, utc_minutes = 0,
      utc_seconds = 0, utc_milliseconds = 0\<rparr>
     \<lparr>t_id = ''t1'', t_user_id = ''u'', t_client_id = None, t_title = ''IRPF 2024'',
      t_description = None, t_task_type = imposto, t_due_date = ''10000-01-01'',
      t_status = pendente, t_created_at = 0\<rparr> = Badge_Atrasada
   \<and> Dashboard_row_badge
     \<lparr>utc_year = 2024, utc_month = 6, utc_day = 1, utc_hours = 12, utc_minutes = 0,
      utc_seconds = 0, utc_milliseconds = 0\<rparr>
     \<lparr>t_id = ''t1'', t_user_id = ''u'', t_client_id = None, t_title = ''IRPF 2024'',
      t_description = None, t_task_type = imposto, t_due_date = ''10000-01-01'',
      t_status = pendente, t_created_at = 0\<rparr> = Badge_Atrasada
   \<and> filteredTasks ''overdue''
     \<lparr>utc_year = 2024, utc_month = 6, utc_day = 1, utc_hours = 12, utc_minutes = 0,
      utc_seconds = 0, utc_milliseconds = 0\<rparr>
     [\<lparr>t_id = ''t1'', t_user_id = ''u'', t_client_id = None, t_title = ''IRPF 2024'',
       t_description = None, t_task_type = imposto, t_due_date = ''10000-01-01'',
       t_status = pendente, t_created_at = 0\<rparr>] =
     [\<lparr>t_id = ''t1'', t_user_id = ''u'', t_client_id = None, t_title = ''IRPF 2024'',
       t_description = None, t_task_type = imposto, t_due_date = ''10000-01-01'',
       t_status = pendente, t_created_at = 0\<rparr>]
   \<and> viewer_local_date 180
     \<lparr>utc_year = 2024, utc_month = 6, utc_day = 2, utc_hours = 1, utc_minutes = 30,
      utc_seconds = 0, utc_milliseconds = 0\<rparr> = \<lparr>cal_year = 2024, cal_month = 6, cal_day = 1\<rparr>
   \<and> date_text \<lparr>cal_year = 2024, cal_month = 6, cal_day = 1\<rparr> = ''2024-06-01''
   \<and> \<not> date_before \<lparr>cal_year = 2024, cal_month = 6, cal_day = 1\<rparr>
        (viewer_local_date 180
          \<lparr>utc_year = 2024, utc_month = 6, utc_day = 2, utc_hours = 1, utc_minutes = 30,
           utc_seconds = 0, utc_milliseconds = 0\<rparr>)
   \<and> Tasks_row_badge
     \<lparr>utc_year = 2024, utc_month = 6, utc_day = 2, utc_hours = 1, utc_minutes = 30,
      utc_seconds = 0, utc_milliseconds = 0\<rparr>
     \<lparr>t_id = ''t2'', t_user_id = ''u'', t_client_id = None, t_title = ''DAS'',
      t_description = None, t_task_type = imposto, t_due_date = ''2024-06-01'',
      t_status = pendente, t_created_at = 0\<rparr> = Badge_Atrasada
   \<and> filteredTasks ''overdue''
     \<lparr>utc_year = 2024, utc_month = 6, utc_day = 2, utc_hours = 1, utc_minutes = 30,
      utc_seconds = 0, utc_milliseconds = 0\<rparr>
     [\<lparr>t_id = ''t2'', t_user_id = ''u'', t_client_id = None, t_title = ''DAS'',
       t_description = None, t_task_type = imposto, t_due_date = ''2024-06-01'',
       t_status = pendente, t_created_at = 0\<rparr>] =
     [\<lparr>t_id = ''t2'', t_user_id = ''u'', t_client_id = None, t_title = ''DAS'',
       t_description = None, t_task_type = imposto, t_due_date = ''2024-06-01'',
       t_status = pendente, t_created_at = 0\<rparr>]"
  by (simp add: Tasks_row_badge_cases Dashboard_row_badge_cases filteredTasks_def
      today_date_text date_eval local_date_eval)

text \<open>
  C2. The claim: a pending task due exactly today shows the indicator \<open>Hoje\<close>, and a
  completed task shows \<open>Concluida\<close> with the letter U+00ED. At 01:30 (UTC) on 2 June
  2024, for a viewer three hours behind UTC, today is 1 June 2024. A pending task due on
  that day gets the badge \<open>Atrasada\<close>, not \<open>Hoje\<close>, on the task list and on the
  dashboard, and \<open>Hoje\<close> goes to the task due on 2 June, the viewer's tomorrow. A
  completed task gets the badge of completion on both screens, but the text the dashboard
  puts in it is not the text of the task list.
\<close>

theorem due_today_against_local_date:
  "t_due_date
     \<lparr>t_id = ''t2'', t_user_id = ''u'', t_client_id = None, t_title = ''DAS'',
      t_description = None, t_task_type = imposto, t_due_date = ''2024-06-01'',
      t_status = pendente, t_created_at = 0\<rparr> =
     date_text (viewer_local_date 180
       \<lparr>utc_year = 2024, utc_month = 6, utc_day = 2, utc_hours = 1, utc_minutes = 30,
        utc_seconds = 0, utc_milliseconds = 0\<rparr>)
   \<and> Tasks_row_badge
     \<lparr>utc_year = 2024, utc_month = 6, utc_day = 2, utc_hours = 1, utc_minutes = 30,
      utc_seconds = 0, utc_milliseconds = 0\<rparr>
     \<lparr>t_id = ''t2'', t_user_id = ''u'', t_client_id = None, t_title = ''DAS'',
      t_description = None, t_task_type = imposto, t_due_date = ''2024-06-01'',
      t_status = pendente, t_created_at = 0\<rparr> = Badge_Atrasada
   \<and> Dashboard_row_badge
     \<lparr>utc_year = 2024, utc_month = 6, utc_day = 2, utc_hours = 1, utc_minutes = 30,
      utc_seconds = 0, utc_milliseconds = 0\<rparr>
     \<lparr>t_id = ''t2'', t_user_id = ''u'', t_client_id = None, t_title = ''DAS'',
      t_description = None, t_task_type = imposto, t_due_date = ''2024-06-01'',
      t_status = pendente, t_created_at = 0\<rparr> = Badge_Atrasada
   \<and> Tasks_row_badge
     \<lparr>utc_year = 2024, utc_month = 6, utc_day = 2, utc_hours = 1, utc_minutes = 30,
      utc_seconds = 0, utc_milliseconds = 0\<rparr>
     \<lparr>t_id = ''t3'', t_user_id = ''u'', t_client_id = None, t_title = ''Folha'',
      t_description = None, t_task_type = folha, t_due_date = ''2024-06-02'',
      t_status = pendente, t_created_at = 0\<rparr> = Badge_Hoje
   \<and> Dashboard_row_badge
     \<lparr>utc_year = 2024, utc_month = 6, utc_day = 2, utc_hours = 1, utc_minutes = 30,
      utc_seconds = 0, utc_milliseconds = 0\<rparr>
     \<lparr>t_id = ''t3'', t_user_id = ''u'', t_client_id = None, t_title = ''Folha'',
      t_description = None, t_task_type = folha, t_due_date = ''2024-06-02'',
      t_status = pendente, t_created_at = 0\<rparr> = Badge_Hoje
   \<and> Dashboard_badge_text (Dashboard_row_badge
     \<lparr>utc_year = 2024, utc_month = 6, utc_day = 2, utc_hours = 1, utc_minutes = 30,
      utc_seconds = 0, utc_milliseconds = 0\<rparr>
     \<lparr>t_id = ''t1'', t_user_id = ''u'', t_client_id = None, t_title = ''IRPF 2024'',
      t_description = None, t_task_type = declaracao, t_due_date = ''2024-05-31'',
      t_status = concluida, t_created_at = 0\<rparr>) \<noteq>
     Tasks_badge_text (Tasks_row_badge
     \<lparr>utc_year = 2024, utc_month = 6, utc_day = 2, utc_hours = 1, utc_minutes = 30,
      utc_seconds = 0, utc_milliseconds = 0\<rparr>
     \<lparr>t_id = ''t1'', t_user_id = ''u'', t_client_id = None, t_title = ''IRPF 2024'',
      t_description = None, t_task_type = declaracao, t_due_date = ''2024-05-31'',
      t_status = concluida, t_created_at = 0\<rparr>)"
  by (simp add: Tasks_row_badge_cases Dashboard_row_badge_cases
      today_date_text date_eval local_date_eval)

section \<open>Claims about provisioning\<close>

text \<open>
  C3 (as amended). When a sign-up succeeds and the metadata has no account category (no
  metadata, no member \<open>account_type\<close>, or a JSON null), the profile created for the
  identity has the account type \<open>contador\<close>. When it succeeds and the metadata has a
  category, that category is one of the two labels and the profile has it. When the
  metadata has a category that is neither label, the cast to the enum raises: the
  sign-up fails and leaves the database as it was, so no profile is created.
\<close>

theorem account_type_from_metadata:
  "(on_auth_user_created now NEW db = Inr db' \<and>
      get_text (u_raw_user_meta_data NEW) ''account_type'' = None
      \<longrightarrow> (\<exists>p. profile_of db' (u_id NEW) = Some p \<and> p_account_type p = contador))
   \<and> (on_auth_user_created now NEW db = Inr db' \<and>
      get_text (u_raw_user_meta_data NEW) ''account_type'' = Some s
      \<longrightarrow> (s = ''contador'' \<or> s = ''escritorio'') \<and>
          (\<exists>p. profile_of db' (u_id NEW) = Some p \<and>
             p_account_type p = (if s = ''escritorio'' then escritorio else contador)))
   \<and> (get_text (u_raw_user_meta_data NEW) ''account_type'' = Some s \<and>
      s \<noteq> ''contador'' \<and> s \<noteq> ''escritorio''
      \<longrightarrow> (\<exists>e. on_auth_user_created now NEW db = Inl e) \<and>
          state_after db (on_auth_user_created now NEW db) = db)"
proof (intro conjI impI)
  assume h: "on_auth_user_created now NEW db = Inr db' \<and>
      get_text (u_raw_user_meta_data NEW) ''account_type'' = None"
  then obtain name email category a where
    c: "cast_account_type (get_text (u_raw_user_meta_data NEW) ''account_type'') = Inr category"
    and a: "COALESCE category (Some contador) = Some a"
    and p: "profile_of db' (u_id NEW) =
        Some \<lparr>p_id = u_id NEW, p_name = name, p_email = email, p_account_type = a,
          p_created_at = now, p_last_login = Some now\<rparr>"
    by (auto elim: signup_profile)
  have "a = contador"
    using h c a by (auto simp: cast_account_type_def COALESCE_def)
  then show "\<exists>p. profile_of db' (u_id NEW) = Some p \<and> p_account_type p = contador"
    using p by simp
next
  assume h: "on_auth_user_created now NEW db = Inr db' \<and>
      get_text (u_raw_user_meta_data NEW) ''account_type'' = Some s"
  then obtain name email category a where
    c: "cast_account_type (get_text (u_raw_user_meta_data NEW) ''account_type'') = Inr category"
    and a: "COALESCE category (Some contador) = Some a"
    and p: "profile_of db' (u_id NEW) =
        Some \<lparr>p_id = u_id NEW, p_name = name, p_email = email, p_account_type = a,
          p_created_at = now, p_last_login = Some now\<rparr>"
    by (auto elim: signup_profile)
  show "s = ''contador'' \<or> s = ''escritorio''"
    using h c by (auto simp: cast_account_type_def split: if_splits)
  have "a = (if s = ''escritorio'' then escritorio else contador)"
    using h c a by (auto simp: cast_account_type_def COALESCE_def split: if_splits)
  then show "\<exists>p. profile_of db' (u_id NEW) = Some p \<and>
      p_account_type p = (if s = ''escritorio'' then escritorio else contador)"
    using p by simp
next
  assume h: "get_text (u_raw_user_meta_data NEW) ''account_type'' = Some s \<and>
      s \<noteq> ''contador'' \<and> s \<noteq> ''escritorio''"
  then have "handle_new_user now NEW db1 = Inl (invalid_text_representation s)" for db1
    by (simp add: handle_new_user_def cast_account_type_def)
  then show "\<exists>e. on_auth_user_created now NEW db = Inl e"
    by (simp add: on_auth_user_created_def split: sum.splits)
  then show "state_after db (on_auth_user_created now NEW db) = db"
    by (auto simp: state_after_def)
qed


text \<open>
  Into the empty database: a sign-up without metadata gives a \<open>contador\<close>; one with the
  category \<open>escritorio\<close> gives an \<open>escritorio\<close>; one with the category \<open>admin\<close>
  changes nothing.
\<close>

theorem account_type_from_metadata_witness:
  "profiles (state_after empty_database
      (on_auth_user_created 5
         \<lparr>u_id = ''u1'', u_email = Some ''ana@example.com'', u_raw_user_meta_data = None\<rparr>
         empty_database)) =
     [\<lparr>p_id = ''u1'', p_name = ''ana@example.com'', p_email = ''ana@example.com'',
       p_account_type = contador, p_created_at = 5, p_last_login = Some 5\<rparr>]
   \<and> profiles (state_after empty_database
      (on_auth_user_created 5
         \<lparr>u_id = ''u2'', u_email = Some ''rui@example.com'',
          u_raw_user_meta_data = Some [(''name'', JString ''Rui''), (''account_type'', JString ''escritorio'')]\<rparr>
         empty_database)) =
     [\<lparr>p_id = ''u2'', p_name = ''Rui'', p_email = ''rui@example.com'',
       p_account_type = escritorio, p_created_at = 5, p_last_login = Some 5\<rparr>]
   \<and> state_after empty_database
      (on_auth_user_created 5
         \<lparr>u_id = ''u3'', u_email = Some ''eva@example.com'',
          u_raw_user_meta_data = Some [(''account_type'', JString ''admin'')]\<rparr>
         empty_database) = empty_database"
  using
    account_type_from_metadata [of 5
      "\<lparr>u_id = ''u1'', u_email = Some ''ana@example.com'', u_raw_user_meta_data = None\<rparr>"
      empty_database
      "\<lparr>auth_users = [\<lparr>u_id = ''u1'', u_email = Some ''ana@example.com'', u_raw_user_meta_data = None\<rparr>],
        profiles = [\<lparr>p_id = ''u1'', p_name = ''ana@example.com'', p_email = ''ana@example.com'',
          p_account_type = contador, p_created_at = 5, p_last_login = Some 5\<rparr>],
        clients = [], tasks = []\<rparr>" "''admin''"]
    account_type_from_metadata [of 5
      "\<lparr>u_id = ''u3'', u_email = Some ''eva@example.com'',
          u_raw_user_meta_data = Some [(''account_type'', JString ''admin'')]\<rparr>"
      empty_database empty_database "''admin''"]
  by (simp add: signup_eval)


text \<open>
  C3 as stated fails on a sign-up whose metadata carries the category \<open>admin\<close>: the
  statement raises the invalid input value, and the profiles are not one \<open>contador\<close>:
  there is none.
\<close>

theorem account_type_from_metadata_counterexample:
  "on_auth_user_created 5
     \<lparr>u_id = ''u3'', u_email = Some ''eva@example.com'',
      u_raw_user_meta_data = Some [(''account_type'', JString ''admin'')]\<rparr>
     empty_database = Inl (invalid_text_representation ''admin'')
   \<and> map p_account_type (profiles (state_after empty_database
        (on_auth_user_created 5
          \<lparr>u_id = ''u3'', u_email = Some ''eva@example.com'',
           u_raw_user_meta_data = Some [(''account_type'', JString ''admin'')]\<rparr>
          empty_database))) \<noteq> [contador]"
  by (simp add: signup_eval)

text \<open>
  C4. When a sign-up succeeds, the profile created for the identity carries the
  identity's id; its name is the member \<open>name\<close> of the metadata when there is one, and
  the e-mail address of the sign-up when there is none.
\<close>

theorem profile_name_from_metadata:
  assumes "on_auth_user_created now NEW db = Inr db'"
  shows "\<exists>p. profile_of db' (u_id NEW) = Some p \<and> p_id p = u_id NEW \<and>
           (case get_text (u_raw_user_meta_data NEW) ''name'' of
              Some n \<Rightarrow> p_name p = n
            | None \<Rightarrow> u_email NEW = Some (p_name p))"
proof -
  from assms obtain name email category a where
    n: "COALESCE (get_text (u_raw_user_meta_data NEW) ''name'') (u_email NEW) = Some name"
    and p: "profile_of db' (u_id NEW) =
        Some \<lparr>p_id = u_id NEW, p_name = name, p_email = email, p_account_type = a,
          p_created_at = now, p_last_login = Some now\<rparr>"
    by (auto elim: signup_profile)
  have "case get_text (u_raw_user_meta_data NEW) ''name'' of
          Some n \<Rightarrow> name = n | None \<Rightarrow> u_email NEW = Some name"
    using n by (simp add: COALESCE_def split: option.splits)
  then show ?thesis
    using p by (simp split: option.splits)
qed


text \<open>
  Into the empty database: without metadata the name is the e-mail address; with the
  name \<open>Rui\<close> in the metadata it is \<open>Rui\<close>.
\<close>

theorem profile_name_from_metadata_witness:
  "map p_name (profiles (state_after empty_database
      (on_auth_user_created 5
         \<lparr>u_id = ''u1'', u_email = Some ''ana@example.com'', u_raw_user_meta_data = None\<rparr>
         empty_database))) = [''ana@example.com'']
   \<and> map p_name (profiles (state_after empty_database
      (on_auth_user_created 5
         \<lparr>u_id = ''u2'', u_email = Some ''rui@example.com'',
          u_raw_user_meta_data = Some [(''name'', JString ''Rui''), (''account_type'', JString ''escritorio'')]\<rparr>
         empty_database))) = [''Rui'']"
  using
    profile_name_from_metadata [of 5
      "\<lparr>u_id = ''u1'', u_email = Some ''ana@example.com'', u_raw_user_meta_data = None\<rparr>"
      empty_database
      "\<lparr>auth_users = [\<lparr>u_id = ''u1'', u_email = Some ''ana@example.com'', u_raw_user_meta_data = None\<rparr>],
        profiles = [\<lparr>p_id = ''u1'', p_name = ''ana@example.com'', p_email = ''ana@example.com'',
          p_account_type = contador, p_created_at = 5, p_last_login = Some 5\<rparr>],
        clients = [], tasks = []\<rparr>"]
    profile_name_from_metadata [of 5
      "\<lparr>u_id = ''u2'', u_email = Some ''rui@example.com'',
          u_raw_user_meta_data = Some [(''name'', JString ''Rui''), (''account_type'', JString ''escritorio'')]\<rparr>"
      empty_database
      "\<lparr>auth_users = [\<lparr>u_id = ''u2'', u_email = Some ''rui@example.com'',
          u_raw_user_meta_data = Some [(''name'', JString ''Rui''), (''account_type'', JString ''escritorio'')]\<rparr>],
        profiles = [\<lparr>p_id = ''u2'', p_name = ''Rui'', p_email = ''rui@example.com'',
          p_account_type = escritorio, p_created_at = 5, p_last_login = Some 5\<rparr>],
        clients = [], tasks = []\<rparr>"]
  by (simp add: signup_eval)


text \<open>
  C5. The insertion of an identity runs \<open>handle_new_user\<close> inside the same statement.
  From a state where every identity has exactly one profile, it leaves such a state,
  whether it succeeds or raises; when it succeeds the identity is there with exactly
  one profile, and one profile row was added; when the insertion of the profile raises,
  the insertion of the identity raises too and the database is as before.
\<close>

theorem one_profile_per_identity:
  assumes "one_profile_each db"
  shows "one_profile_each (state_after db (on_auth_user_created now NEW db))
       \<and> (on_auth_user_created now NEW db = Inr db' \<longrightarrow>
            auth_users db' = auth_users db @ [NEW] \<and> profile_count db' (u_id NEW) = 1 \<and>
            length (profiles db') = Suc (length (profiles db)))
       \<and> (handle_new_user now NEW (db\<lparr>auth_users := auth_users db @ [NEW]\<rparr>) = Inl e \<longrightarrow>
            (\<exists>e'. on_auth_user_created now NEW db = Inl e') \<and>
            state_after db (on_auth_user_created now NEW db) = db)"
proof -
  have ok: "one_profile_each d \<and> auth_users d = auth_users db @ [NEW] \<and>
      profile_count d (u_id NEW) = 1 \<and> length (profiles d) = Suc (length (profiles db))"
    if "on_auth_user_created now NEW db = Inr d" for d
  proof -
    from that obtain name email a where
      d: "d = db\<lparr>auth_users := auth_users db @ [NEW], profiles := profiles db @
        [\<lparr>p_id = u_id NEW, p_name = name, p_email = email, p_account_type = a,
          p_created_at = now, p_last_login = Some now\<rparr>]\<rparr>"
      and fp: "u_id NEW \<notin> set (map p_id (profiles db))"
      and fu: "u_id NEW \<notin> set (map u_id (auth_users db))"
      by (auto elim: signup_profile)
    have new: "profile_count d (u_id NEW) = 1"
      by (simp add: d profile_count_signup profile_count_fresh [OF fp])
    have old: "profile_count d (u_id u) = 1" if "u \<in> set (auth_users db)" for u
    proof -
      have "u_id NEW \<noteq> u_id u"
        using fu that by auto
      moreover have "profile_count db (u_id u) = 1"
        using assms that by (simp add: one_profile_each_def list_all_iff)
      ultimately show ?thesis
        by (simp add: d profile_count_signup)
    qed
    have "one_profile_each d"
      unfolding one_profile_each_def list_all_iff
      using old new by (auto simp: d)
    then show ?thesis
      using new by (simp add: d)
  qed
  have 1: "one_profile_each (state_after db (on_auth_user_created now NEW db))"
    using ok assms by (cases "on_auth_user_created now NEW db") (simp_all add: state_after_def)
  have 3: "(\<exists>e'. on_auth_user_created now NEW db = Inl e') \<and>
      state_after db (on_auth_user_created now NEW db) = db"
    if "handle_new_user now NEW (db\<lparr>auth_users := auth_users db @ [NEW]\<rparr>) = Inl e"
    using that
    by (auto simp: on_auth_user_created_def state_after_def enforce_constraints_Inr
        split: sum.splits)
  show ?thesis
    using 1 ok 3 by blast
qed


text \<open>
  Into the empty database: the sign-up of \<open>u1\<close> leaves \<open>u1\<close> with one profile; the
  sign-up of \<open>u4\<close>, who has neither name nor e-mail address, fails in
  \<open>handle_new_user\<close> and leaves no identity.
\<close>

theorem one_profile_per_identity_witness:
  "profile_count (state_after empty_database
      (on_auth_user_created 5
         \<lparr>u_id = ''u1'', u_email = Some ''ana@example.com'', u_raw_user_meta_data = None\<rparr>
         empty_database)) ''u1'' = 1
   \<and> auth_users (state_after empty_database
      (on_auth_user_created 5
         \<lparr>u_id = ''u1'', u_email = Some ''ana@example.com'', u_raw_user_meta_data = None\<rparr>
         empty_database)) =
       [\<lparr>u_id = ''u1'', u_email = Some ''ana@example.com'', u_raw_user_meta_data = None\<rparr>]
   \<and> handle_new_user 5
         \<lparr>u_id = ''u4'', u_email = None, u_raw_user_meta_data = None\<rparr>
         \<lparr>auth_users = [\<lparr>u_id = ''u4'', u_email = None, u_raw_user_meta_data = None\<rparr>],
          profiles = [], clients = [], tasks = []\<rparr> = Inl (not_null_violation ''name'')
   \<and> auth_users (state_after empty_database
      (on_auth_user_created 5
         \<lparr>u_id = ''u4'', u_email = None, u_raw_user_meta_data = None\<rparr>
         empty_database)) = []"
  using
    one_profile_per_identity [of empty_database 5
      "\<lparr>u_id = ''u1'', u_email = Some ''ana@example.com'', u_raw_user_meta_data = None\<rparr>"
      "\<lparr>auth_users = [\<lparr>u_id = ''u1'', u_email = Some ''ana@example.com'', u_raw_user_meta_data = None\<rparr>],
        profiles = [\<lparr>p_id = ''u1'', p_name = ''ana@example.com'', p_email = ''ana@example.com'',
          p_account_type = contador, p_created_at = 5, p_last_login = Some 5\<rparr>],
        clients = [], tasks = []\<rparr>" "not_null_violation ''name''"]
    one_profile_per_identity [of empty_database 5
      "\<lparr>u_id = ''u4'', u_email = None, u_raw_user_meta_data = None\<rparr>"
      empty_database "not_null_violation ''name''"]
  by (simp add: signup_eval)

section \<open>Claims about the last login\<close>

text \<open>
  C6. For an identity that has a profile, each sign-in overwrites \<open>last_login\<close> with
  the time of that sign-in, whatever it held: the values of \<open>last_login\<close> after each
  sign-in of a run are the times of the sign-ins, so after a run that is not empty
  \<open>last_login\<close> is the time of its last sign-in, and the values never decrease when the
  times of the sign-ins do not. A sign-in changes no other column and no row of another
  identity.
\<close>

theorem last_login_is_latest_sign_in:
  assumes "u_id u \<in> set (map p_id (profiles db))"
  shows "last_login_history u ts db = map Some ts
       \<and> (ts \<noteq> [] \<longrightarrow> last_login (sign_ins u ts db) (u_id u) = Some (last ts))
       \<and> (sorted ts \<longrightarrow> sorted (map the (last_login_history u ts db)))
       \<and> map (\<lambda>p. p\<lparr>p_last_login := None\<rparr>) (profiles (sign_ins u ts db)) =
           map (\<lambda>p. p\<lparr>p_last_login := None\<rparr>) (profiles db)
       \<and> filter (\<lambda>p. p_id p \<noteq> u_id u) (profiles (sign_ins u ts db)) =
           filter (\<lambda>p. p_id p \<noteq> u_id u) (profiles db)"
  using sign_ins_frame [of u ts db]
  by (simp add: last_login_history_eq [OF assms] last_login_sign_ins [OF assms] comp_def)


text \<open>Four sign-ins of \<open>u1\<close>, at the times 10, 20, 20 and 35.\<close>

theorem last_login_is_latest_sign_in_witness:
  "last_login_history \<lparr>u_id = ''u1'', u_email = Some ''ana@example.com'', u_raw_user_meta_data = None\<rparr>
     [10, 20, 20, 35]
     \<lparr>auth_users = [\<lparr>u_id = ''u1'', u_email = Some ''ana@example.com'', u_raw_user_meta_data = None\<rparr>],
      profiles = [\<lparr>p_id = ''u1'', p_name = ''Ana'', p_email = ''ana@example.com'',
          p_account_type = contador, p_created_at = 5, p_last_login = Some 5\<rparr>],
      clients = [], tasks = []\<rparr> = [Some 10, Some 20, Some 20, Some 35]
   \<and> last_login (sign_ins \<lparr>u_id = ''u1'', u_email = Some ''ana@example.com'', u_raw_user_meta_data = None\<rparr>
     [10, 20, 20, 35]
     \<lparr>auth_users = [\<lparr>u_id = ''u1'', u_email = Some ''ana@example.com'', u_raw_user_meta_data = None\<rparr>],
      profiles = [\<lparr>p_id = ''u1'', p_name = ''Ana'', p_email = ''ana@example.com'',
          p_account_type = contador, p_created_at = 5, p_last_login = Some 5\<rparr>],
      clients = [], tasks = []\<rparr>) ''u1'' = Some 35"
  using last_login_is_latest_sign_in [of
     "\<lparr>u_id = ''u1'', u_email = Some ''ana@example.com'', u_raw_user_meta_data = None\<rparr>"
     "\<lparr>auth_users = [\<lparr>u_id = ''u1'', u_email = Some ''ana@example.com'', u_raw_user_meta_data = None\<rparr>],
      profiles = [\<lparr>p_id = ''u1'', p_name = ''Ana'', p_email = ''ana@example.com'',
          p_account_type = contador, p_created_at = 5, p_last_login = Some 5\<rparr>],
      clients = [], tasks = []\<rparr>" "[10, 20, 20, 35]"]
  by simp

section \<open>Claims about the deletion of a client\<close>

text \<open>
  C7. When the owner of a client deletes it from the client list, the client row is gone
  and the table of tasks has the same rows in the same places: no task is deleted. A
  task that referenced the client has \<open>client_id\<close> null afterwards, every other task
  keeps its \<open>client_id\<close>, and every task keeps all its other columns.
\<close>

theorem client_delete_clears_reference:
  assumes "c \<in> set (clients db)" "c_user_id c = uid" "c_id c \<noteq> []"
  shows "c \<notin> set (clients (handleDelete (Some uid) (Some (c_id c)) db))
       \<and> length (tasks (handleDelete (Some uid) (Some (c_id c)) db)) = length (tasks db)
       \<and> (\<forall>i<length (tasks db).
            t_client_id (tasks (handleDelete (Some uid) (Some (c_id c)) db) ! i) =
              (if t_client_id (tasks db ! i) = Some (c_id c) then None
               else t_client_id (tasks db ! i)) \<and>
            (tasks (handleDelete (Some uid) (Some (c_id c)) db) ! i)\<lparr>t_client_id := None\<rparr> =
              (tasks db ! i)\<lparr>t_client_id := None\<rparr>)"
proof -
  let ?db' = "handleDelete (Some uid) (Some (c_id c)) db"
  have eq: "?db' = delete_clients (Some uid) (clients_eq_id (c_id c)) db"
    by (rule handleDelete_eq [OF assms(3)])
  have gone: "c_id ` {r \<in> set (clients db). uid = c_user_id r \<and> clients_eq_id (c_id c) r}
      = {c_id c}"
    using assms(1,2) by (auto simp: clients_eq_id_def)
  have t: "tasks ?db' =
      map (\<lambda>t. if t_client_id t = Some (c_id c) then t\<lparr>t_client_id := None\<rparr> else t) (tasks db)"
    by (simp add: eq delete_clients_tasks gone)
  have 1: "c \<notin> set (clients ?db')"
    using assms(2) by (simp add: eq delete_clients_clients clients_eq_id_def)
  show ?thesis
    using 1 by (simp add: t)
qed


text \<open>
  \<open>u1\<close> deletes the client \<open>c1\<close>: the task \<open>t1\<close> loses its reference, the task
  \<open>t2\<close> of the client \<open>c2\<close> is as before.
\<close>

theorem client_delete_clears_reference_witness:
  "tasks (handleDelete (Some ''u1'') (Some ''c1'')
     \<lparr>auth_users = [\<lparr>u_id = ''u1'', u_email = Some ''ana@example.com'', u_raw_user_meta_data = None\<rparr>],
      profiles = [\<lparr>p_id = ''u1'', p_name = ''Ana'', p_email = ''ana@example.com'',
          p_account_type = contador, p_created_at = 0, p_last_login = Some 0\<rparr>],
      clients = [\<lparr>c_id = ''c1'', c_user_id = ''u1'', c_name = ''Padaria'', c_cpf_cnpj = ''12345678000199'',
                  c_person_type = PJ, c_email = None, c_phone = None, c_created_at = 1\<rparr>,
                 \<lparr>c_id = ''c2'', c_user_id = ''u1'', c_name = ''Maria'', c_cpf_cnpj = ''12345678901'',
                  c_person_type = PF, c_email = None, c_phone = None, c_created_at = 2\<rparr>],
      tasks = [\<lparr>t_id = ''t1'', t_user_id = ''u1'', t_client_id = Some ''c1'', t_title = ''DAS'',
                t_description = None, t_task_type = imposto, t_due_date = ''2024-06-20'',
                t_status = pendente, t_created_at = 3\<rparr>,
               \<lparr>t_id = ''t2'', t_user_id = ''u1'', t_client_id = Some ''c2'', t_title = ''IRPF 2024'',
                t_description = None, t_task_type = declaracao, t_due_date = ''2024-05-31'',
                t_status = concluida, t_created_at = 4\<rparr>]\<rparr>) =
     [\<lparr>t_id = ''t1'', t_user_id = ''u1'', t_client_id = None, t_title = ''DAS'',
       t_description = None, t_task_type = imposto, t_due_date = ''2024-06-20'',
       t_status = pendente, t_created_at = 3\<rparr>,
      \<lparr>t_id = ''t2'', t_user_id = ''u1'', t_client_id = Some ''c2'', t_title = ''IRPF 2024'',
       t_description = None, t_task_type = declaracao, t_due_date = ''2024-05-31'',
       t_status = concluida, t_created_at = 4\<rparr>]"
  using client_delete_clears_reference [of
     "\<lparr>c_id = ''c1'', c_user_id = ''u1'', c_name = ''Padaria'', c_cpf_cnpj = ''12345678000199'',
                  c_person_type = PJ, c_email = None, c_phone = None, c_created_at = 1\<rparr>"
     "\<lparr>auth_users = [\<lparr>u_id = ''u1'', u_email = Some ''ana@example.com'', u_raw_user_meta_data = None\<rparr>],
      profiles = [\<lparr>p_id = ''u1'', p_name = ''Ana'', p_email = ''ana@example.com'',
          p_account_type = contador, p_created_at = 0, p_last_login = Some 0\<rparr>],
      clients = [\<lparr>c_id = ''c1'', c_user_id = ''u1'', c_name = ''Padaria'', c_cpf_cnpj = ''12345678000199'',
                  c_person_type = PJ, c_email = None, c_phone = None, c_created_at = 1\<rparr>,
                 \<lparr>c_id = ''c2'', c_user_id = ''u1'', c_name = ''Maria'', c_cpf_cnpj = ''12345678901'',
                  c_person_type = PF, c_email = None, c_phone = None, c_created_at = 2\<rparr>],
      tasks = [\<lparr>t_id = ''t1'', t_user_id = ''u1'', t_client_id = Some ''c1'', t_title = ''DAS'',
                t_description = None, t_task_type = imposto, t_due_date = ''2024-06-20'',
                t_status = pendente, t_created_at = 3\<rparr>,
               \<lparr>t_id = ''t2'', t_user_id = ''u1'', t_client_id = Some ''c2'', t_title = ''IRPF 2024'',
                t_description = None, t_task_type = declaracao, t_due_date = ''2024-05-31'',
                t_status = concluida, t_created_at = 4\<rparr>]\<rparr>" "''u1''"]
  by (simp add: handleDelete_def truthy_def delete_clients_def clients_eq_id_def
      view_own_clients_def delete_own_clients_def)

section \<open>Claims about ownership\<close>

text \<open>
  C8 (as amended). Let \<open>u\<close> and \<open>v\<close> be distinct users. A \<open>SELECT\<close> of \<open>v\<close> on
  \<open>clients\<close> or \<open>tasks\<close> returns rows of \<open>v\<close> only, chosen among the rows of \<open>v\<close>
  alone: it returns no row of \<open>u\<close> and is the same in two databases that hold the same
  rows of \<open>v\<close>. An \<open>INSERT\<close> by \<open>v\<close> of a row owned by \<open>u\<close> is refused. Whatever
  statements \<open>v\<close> runs, the client rows of \<open>u\<close> are afterwards what they were, and
  so are the task rows of \<open>u\<close> up to their column \<open>client_id\<close>: none is added, removed or
  otherwise changed. A statement of \<open>v\<close> leaves the task rows of \<open>u\<close> exactly as they
  were unless it deletes clients while a task of \<open>u\<close> references a client of \<open>v\<close>: then
  the action \<open>ON DELETE SET NULL\<close> clears that reference.
\<close>

theorem ownership_isolation:
  assumes "u \<noteq> v"
  shows "select_clients (Some v) cond db = filter cond (clients_of v db)
       \<and> select_tasks (Some v) cond' db = filter cond' (tasks_of v db)
       \<and> filter (\<lambda>r. c_user_id r = u) (select_clients (Some v) cond db) = []
       \<and> filter (\<lambda>r. t_user_id r = u) (select_tasks (Some v) cond' db) = []
       \<and> (c_user_id r = u \<longrightarrow> insert_clients (Some v) r db = Inl (insufficient_privilege ''clients''))
       \<and> (t_user_id r' = u \<longrightarrow> insert_tasks (Some v) r' db = Inl (insufficient_privilege ''tasks''))
       \<and> clients_of u (execute_all (Some v) sts db) = clients_of u db
       \<and> map (\<lambda>t. t\<lparr>t_client_id := None\<rparr>) (tasks_of u (execute_all (Some v) sts db)) =
           map (\<lambda>t. t\<lparr>t_client_id := None\<rparr>) (tasks_of u db)
       \<and> ((\<forall>c. st \<noteq> Delete_clients c) \<or>
           (\<forall>t\<in>set (tasks_of u db). \<forall>c. t_client_id t = Some c \<longrightarrow>
              c \<notin> c_id ` set (clients_of v db))
           \<longrightarrow> tasks_of u (execute (Some v) st db) = tasks_of u db)"
proof -
  have 3: "filter (\<lambda>r. c_user_id r = u) (select_clients (Some v) cond db) = []"
    using assms by (auto simp: select_clients_own clients_of_def filter_empty_conv)
  have 4: "filter (\<lambda>r. t_user_id r = u) (select_tasks (Some v) cond' db) = []"
    using assms by (auto simp: select_tasks_own tasks_of_def filter_empty_conv)
  have 5: "c_user_id r = u \<longrightarrow> insert_clients (Some v) r db = Inl (insufficient_privilege ''clients'')"
    using assms by (auto simp: insert_clients_def insert_own_clients_def)
  have 6: "t_user_id r' = u \<longrightarrow> insert_tasks (Some v) r' db = Inl (insufficient_privilege ''tasks'')"
    using assms by (auto simp: insert_tasks_def insert_own_tasks_def)
  show ?thesis
    using 3 4 5 6 execute_all_other [OF assms, of sts db] execute_other_tasks_exact [OF assms, of st db]
    by (simp only: select_clients_own select_tasks_own) blast
qed


text \<open>
  \<open>v\<close> tries to delete the client and the task of \<open>u\<close> and to insert a task owned by
  \<open>u\<close>: the rows of \<open>u\<close> stay, the insertion is refused.
\<close>

theorem ownership_isolation_witness:
  "clients_of ''u''
     (execute_all (Some ''v'')
        [Delete_clients (clients_eq_id ''cu''), Delete_tasks (tasks_eq_id ''tu'')]
        \<lparr>auth_users = [\<lparr>u_id = ''u'', u_email = Some ''u@example.com'', u_raw_user_meta_data = None\<rparr>,
                       \<lparr>u_id = ''v'', u_email = Some ''v@example.com'', u_raw_user_meta_data = None\<rparr>],
         profiles = [\<lparr>p_id = ''u'', p_name = ''U'', p_email = ''u@example.com'',
                      p_account_type = contador, p_created_at = 0, p_last_login = Some 0\<rparr>,
                     \<lparr>p_id = ''v'', p_name = ''V'', p_email = ''v@example.com'',
                      p_account_type = escritorio, p_created_at = 0, p_last_login = Some 0\<rparr>],
         clients = [\<lparr>c_id = ''cu'', c_user_id = ''u'', c_name = ''Padaria'', c_cpf_cnpj = ''12345678000199'',
                     c_person_type = PJ, c_email = None, c_phone = None, c_created_at = 1\<rparr>],
         tasks = [\<lparr>t_id = ''tu'', t_user_id = ''u'', t_client_id = Some ''cu'', t_title = ''DAS'',
                   t_description = None, t_task_type = imposto, t_due_date = ''2024-06-20'',
                   t_status = pendente, t_created_at = 3\<rparr>]\<rparr>) =
     [\<lparr>c_id = ''cu'', c_user_id = ''u'', c_name = ''Padaria'', c_cpf_cnpj = ''12345678000199'',
       c_person_type = PJ, c_email = None, c_phone = None, c_created_at = 1\<rparr>]
   \<and> tasks_of ''u''
     (execute (Some ''v'') (Delete_tasks (tasks_eq_id ''tu''))
        \<lparr>auth_users = [\<lparr>u_id = ''u'', u_email = Some ''u@example.com'', u_raw_user_meta_data = None\<rparr>,
                       \<lparr>u_id = ''v'', u_email = Some ''v@example.com'', u_raw_user_meta_data = None\<rparr>],
         profiles = [\<lparr>p_id = ''u'', p_name = ''U'', p_email = ''u@example.com'',
                      p_account_type = contador, p_created_at = 0, p_last_login = Some 0\<rparr>,
                     \<lparr>p_id = ''v'', p_name = ''V'', p_email = ''v@example.com'',
                      p_account_type = escritorio, p_created_at = 0, p_last_login = Some 0\<rparr>],
         clients = [\<lparr>c_id = ''cu'', c_user_id = ''u'', c_name = ''Padaria'', c_cpf_cnpj = ''12345678000199'',
                     c_person_type = PJ, c_email = None, c_phone = None, c_created_at = 1\<rparr>],
         tasks = [\<lparr>t_id = ''tu'', t_user_id = ''u'', t_client_id = Some ''cu'', t_title = ''DAS'',
                   t_description = None, t_task_type = imposto, t_due_date = ''2024-06-20'',
                   t_status = pendente, t_created_at = 3\<rparr>]\<rparr>) =
     [\<lparr>t_id = ''tu'', t_user_id = ''u'', t_client_id = Some ''cu'', t_title = ''DAS'',
       t_description = None, t_task_type = imposto, t_due_date = ''2024-06-20'',
       t_status = pendente, t_created_at = 3\<rparr>]
   \<and> insert_tasks (Some ''v'')
        \<lparr>t_id = ''t9'', t_user_id = ''u'', t_client_id = None, t_title = ''Intruso'',
          t_description = None, t_task_type = outro, t_due_date = ''2024-06-20'',
          t_status = pendente, t_created_at = 9\<rparr>
        \<lparr>auth_users = [\<lparr>u_id = ''u'', u_email = Some ''u@example.com'', u_raw_user_meta_data = None\<rparr>,
                       \<lparr>u_id = ''v'', u_email = Some ''v@example.com'', u_raw_user_meta_data = None\<rparr>],
         profiles = [\<lparr>p_id = ''u'', p_name = ''U'', p_email = ''u@example.com'',
                      p_account_type = contador, p_created_at = 0, p_last_login = Some 0\<rparr>,
                     \<lparr>p_id = ''v'', p_name = ''V'', p_email = ''v@example.com'',
                      p_account_type = escritorio, p_created_at = 0, p_last_login = Some 0\<rparr>],
         clients = [\<lparr>c_id = ''cu'', c_user_id = ''u'', c_name = ''Padaria'', c_cpf_cnpj = ''12345678000199'',
                     c_person_type = PJ, c_email = None, c_phone = None, c_created_at = 1\<rparr>],
         tasks = [\<lparr>t_id = ''tu'', t_user_id = ''u'', t_client_id = Some ''cu'', t_title = ''DAS'',
                   t_description = None, t_task_type = imposto, t_due_date = ''2024-06-20'',
                   t_status = pendente, t_created_at = 3\<rparr>]\<rparr>
     = Inl (insufficient_privilege ''tasks'')"
  using ownership_isolation [of "''u''" "''v''" _
        "\<lparr>auth_users = [\<lparr>u_id = ''u'', u_email = Some ''u@example.com'', u_raw_user_meta_data = None\<rparr>,
                       \<lparr>u_id = ''v'', u_email = Some ''v@example.com'', u_raw_user_meta_data = None\<rparr>],
         profiles = [\<lparr>p_id = ''u'', p_name = ''U'', p_email = ''u@example.com'',
                      p_account_type = contador, p_created_at = 0, p_last_login = Some 0\<rparr>,
                     \<lparr>p_id = ''v'', p_name = ''V'', p_email = ''v@example.com'',
                      p_account_type = escritorio, p_created_at = 0, p_last_login = Some 0\<rparr>],
         clients = [\<lparr>c_id = ''cu'', c_user_id = ''u'', c_name = ''Padaria'', c_cpf_cnpj = ''12345678000199'',
                     c_person_type = PJ, c_email = None, c_phone = None, c_created_at = 1\<rparr>],
         tasks = [\<lparr>t_id = ''tu'', t_user_id = ''u'', t_client_id = Some ''cu'', t_title = ''DAS'',
                   t_description = None, t_task_type = imposto, t_due_date = ''2024-06-20'',
                   t_status = pendente, t_created_at = 3\<rparr>]\<rparr>"
        _ _
        "\<lparr>t_id = ''t9'', t_user_id = ''u'', t_client_id = None, t_title = ''Intruso'',
          t_description = None, t_task_type = outro, t_due_date = ''2024-06-20'',
          t_status = pendente, t_created_at = 9\<rparr>"
        "[Delete_clients (clients_eq_id ''cu''), Delete_tasks (tasks_eq_id ''tu'')]"
        "Delete_tasks (tasks_eq_id ''tu'')"]
  by (simp add: clients_of_def tasks_of_def)


text \<open>
  C8 as stated fails when a task of \<open>u\<close> references a client of \<open>v\<close>. \<open>u\<close> may insert
  such a task: the policy of \<open>tasks\<close> looks at \<open>user_id\<close> only, and the foreign key only
  asks that the client exists. When \<open>v\<close> then deletes that client, the task row of \<open>u\<close>
  is modified: its \<open>client_id\<close> becomes null.
\<close>

theorem ownership_isolation_counterexample:
  "tasks_of ''u''
     (execute (Some ''u'')
        (Insert_task
           \<lparr>t_id = ''tu'', t_user_id = ''u'', t_client_id = Some ''cv'', t_title = ''DAS'',
            t_description = None, t_task_type = imposto, t_due_date = ''2024-06-20'',
            t_status = pendente, t_created_at = 3\<rparr>)
        \<lparr>auth_users = [\<lparr>u_id = ''u'', u_email = Some ''u@example.com'', u_raw_user_meta_data = None\<rparr>,
                       \<lparr>u_id = ''v'', u_email = Some ''v@example.com'', u_raw_user_meta_data = None\<rparr>],
         profiles = [\<lparr>p_id = ''u'', p_name = ''U'', p_email = ''u@example.com'',
                      p_account_type = contador, p_created_at = 0, p_last_login = Some 0\<rparr>,
                     \<lparr>p_id = ''v'', p_name = ''V'', p_email = ''v@example.com'',
                      p_account_type = escritorio, p_created_at = 0, p_last_login = Some 0\<rparr>],
         clients = [\<lparr>c_id = ''cv'', c_user_id = ''v'', c_name = ''Padaria'', c_cpf_cnpj = ''12345678000199'',
                     c_person_type = PJ, c_email = None, c_phone = None, c_created_at = 1\<rparr>],
         tasks = []\<rparr>) =
     [\<lparr>t_id = ''tu'', t_user_id = ''u'', t_client_id = Some ''cv'', t_title = ''DAS'',
       t_description = None, t_task_type = imposto, t_due_date = ''2024-06-20'',
       t_status = pendente, t_created_at = 3\<rparr>]
   \<and> tasks_of ''u''
     (execute (Some ''v'') (Delete_clients (clients_eq_id ''cv''))
       (execute (Some ''u'')
        (Insert_task
           \<lparr>t_id = ''tu'', t_user_id = ''u'', t_client_id = Some ''cv'', t_title = ''DAS'',
            t_description = None, t_task_type = imposto, t_due_date = ''2024-06-20'',
            t_status = pendente, t_created_at = 3\<rparr>)
        \<lparr>auth_users = [\<lparr>u_id = ''u'', u_email = Some ''u@example.com'', u_raw_user_meta_data = None\<rparr>,
                       \<lparr>u_id = ''v'', u_email = Some ''v@example.com'', u_raw_user_meta_data = None\<rparr>],
         profiles = [\<lparr>p_id = ''u'', p_name = ''U'', p_email = ''u@example.com'',
                      p_account_type = contador, p_created_at = 0, p_last_login = Some 0\<rparr>,
                     \<lparr>p_id = ''v'', p_name = ''V'', p_email = ''v@example.com'',
                      p_account_type = escritorio, p_created_at = 0, p_last_login = Some 0\<rparr>],
         clients = [\<lparr>c_id = ''cv'', c_user_id = ''v'', c_name = ''Padaria'', c_cpf_cnpj = ''12345678000199'',
                     c_person_type = PJ, c_email = None, c_phone = None, c_created_at = 1\<rparr>],
         tasks = []\<rparr>)) =
     [\<lparr>t_id = ''tu'', t_user_id = ''u'', t_client_id = None, t_title = ''DAS'',
       t_description = None, t_task_type = imposto, t_due_date = ''2024-06-20'',
       t_status = pendente, t_created_at = 3\<rparr>]"
  by (simp add: tasks_of_def state_after_def insert_tasks_def insert_own_tasks_def
      enforce_constraints_def check_constraints_def delete_clients_def clients_eq_id_def
      view_own_clients_def delete_own_clients_def)

section \<open>Claims about the completion toggle\<close>

text \<open>
  C10. \<open>toggleTaskComplete\<close> writes \<open>pendente\<close> for a task it is given as
  \<open>concluida\<close> and \<open>concluida\<close> for any other. In a database that satisfies its keys,
  toggling a task of one's own rewrites the status of that row alone, and the list then
  fetched shows the row with the new status. Toggling that row again gives back the
  table of tasks as it was when the status was \<open>pendente\<close> or \<open>concluida\<close>; when it was
  \<open>atrasada\<close> the row ends as \<open>pendente\<close>, and nothing else differs.
\<close>

theorem toggle_twice:
  assumes "check_constraints db = None" "t \<in> set (tasks db)" "t_user_id t = uid"
  shows "newStatus t = (if t_status t = concluida then pendente else concluida)
       \<and> tasks (toggleTaskComplete (Some uid) t db) =
           map (\<lambda>r. if r = t then t\<lparr>t_status := newStatus t\<rparr> else r) (tasks db)
       \<and> t\<lparr>t_status := newStatus t\<rparr> \<in> set (fetchTasks (Some uid) (toggleTaskComplete (Some uid) t db))
       \<and> (t_status t \<noteq> atrasada \<longrightarrow>
            tasks (toggleTaskComplete (Some uid) (t\<lparr>t_status := newStatus t\<rparr>)
                     (toggleTaskComplete (Some uid) t db)) = tasks db)
       \<and> (t_status t = atrasada \<longrightarrow>
            tasks (toggleTaskComplete (Some uid) (t\<lparr>t_status := newStatus t\<rparr>)
                     (toggleTaskComplete (Some uid) t db)) =
              map (\<lambda>r. if r = t then t\<lparr>t_status := pendente\<rparr> else r) (tasks db))"
proof -
  let ?t1 = "t\<lparr>t_status := newStatus t\<rparr>"
  let ?db1 = "toggleTaskComplete (Some uid) t db"
  let ?db2 = "toggleTaskComplete (Some uid) ?t1 ?db1"
  have d: "distinct (map t_id (tasks db))"
    using assms(1) by (simp add: check_constraints_None)
  have 1: "tasks ?db1 = map (\<lambda>r. if r = t then ?t1 else r) (tasks db)"
    using toggle_own_task [OF assms, of t] by simp
  have c1: "check_constraints ?db1 = None"
    by (rule toggleTaskComplete_constraints [OF assms(1)])
  have in1: "?t1 \<in> set (tasks ?db1)"
    unfolding 1 using assms(2) by force
  have o1: "t_user_id ?t1 = uid"
    using assms(3) by simp
  have 3: "?t1 \<in> set (fetchTasks (Some uid) ?db1)"
    using in1 o1 by (simp add: fetchTasks_def select_tasks_def view_own_tasks_def)
  have "tasks ?db2 = map (\<lambda>r. if r = ?t1 then ?t1\<lparr>t_status := newStatus ?t1\<rparr> else r) (tasks ?db1)"
    using toggle_own_task [OF c1 in1 o1, of ?t1] by simp
  also have "\<dots> = map (\<lambda>r. if r = t then t\<lparr>t_status := newStatus ?t1\<rparr> else r) (tasks db)"
  proof -
    have "r \<noteq> ?t1" if "r \<in> set (tasks db)" "r \<noteq> t" for r
    proof
      assume "r = ?t1"
      then have "t_id r = t_id t"
        by simp
      then show False
        using distinct_key_unique [OF d that(1) assms(2)] that(2) by simp
    qed
    then show ?thesis
      unfolding 1 by simp
  qed
  finally have 2: "tasks ?db2 = map (\<lambda>r. if r = t then t\<lparr>t_status := newStatus ?t1\<rparr> else r) (tasks db)" .
  have same: "t\<lparr>t_status := newStatus ?t1\<rparr> = t" if "t_status t \<noteq> atrasada"
    using that by (cases "t_status t") (simp_all add: newStatus_def)
  have 4: "tasks ?db2 = tasks db" if "t_status t \<noteq> atrasada"
    unfolding 2 same [OF that] by (intro map_idI) simp
  have 5: "tasks ?db2 = map (\<lambda>r. if r = t then t\<lparr>t_status := pendente\<rparr> else r) (tasks db)"
    if "t_status t = atrasada"
    unfolding 2 using that by (simp add: newStatus_def)
  show ?thesis
    using 1 3 4 5 by (simp add: newStatus_def)
qed


text \<open>Two toggles of the only task of \<open>u\<close>: stored as \<open>pendente\<close>, and stored as \<open>atrasada\<close>.\<close>

theorem toggle_twice_witness:
  "map t_status (tasks (toggleTaskComplete (Some ''u'')
      \<lparr>t_id = ''t1'', t_user_id = ''u'', t_client_id = None, t_title = ''DAS'',
       t_description = None, t_task_type = imposto, t_due_date = ''2024-06-20'',
       t_status = concluida, t_created_at = 3\<rparr>
      (toggleTaskComplete (Some ''u'')
        \<lparr>t_id = ''t1'', t_user_id = ''u'', t_client_id = None, t_title = ''DAS'',
         t_description = None, t_task_type = imposto, t_due_date = ''2024-06-20'',
         t_status = pendente, t_created_at = 3\<rparr>
        \<lparr>auth_users = [\<lparr>u_id = ''u'', u_email = Some ''u@example.com'', u_raw_user_meta_data = None\<rparr>],
         profiles = [\<lparr>p_id = ''u'', p_name = ''U'', p_email = ''u@example.com'',
                      p_account_type = contador, p_created_at = 0, p_last_login = Some 0\<rparr>],
         clients = [],
         tasks = [\<lparr>t_id = ''t1'', t_user_id = ''u'', t_client_id = None, t_title = ''DAS'',
                   t_description = None, t_task_type = imposto, t_due_date = ''2024-06-20'',
                   t_status = pendente, t_created_at = 3\<rparr>]\<rparr>))) = [pendente]
   \<and> map t_status (tasks (toggleTaskComplete (Some ''u'')
      \<lparr>t_id = ''t1'', t_user_id = ''u'', t_client_id = None, t_title = ''DAS'',
       t_description = None, t_task_type = imposto, t_due_date = ''2024-06-20'',
       t_status = concluida, t_created_at = 3\<rparr>
      (toggleTaskComplete (Some ''u'')
        \<lparr>t_id = ''t1'', t_user_id = ''u'', t_client_id = None, t_title = ''DAS'',
         t_description = None, t_task_type = imposto, t_due_date = ''2024-06-20'',
         t_status = atrasada, t_created_at = 3\<rparr>
        \<lparr>auth_users = [\<lparr>u_id = ''u'', u_email = Some ''u@example.com'', u_raw_user_meta_data = None\<rparr>],
         profiles = [\<lparr>p_id = ''u'', p_name = ''U'', p_email = ''u@example.com'',
                      p_account_type = contador, p_created_at = 0, p_last_login = Some 0\<rparr>],
         clients = [],
         tasks = [\<lparr>t_id = ''t1'', t_user_id = ''u'', t_client_id = None, t_title = ''DAS'',
                   t_description = None, t_task_type = imposto, t_due_date = ''2024-06-20'',
                   t_status = atrasada, t_created_at = 3\<rparr>]\<rparr>))) = [pendente]"
  using
    toggle_twice [of
        "\<lparr>auth_users = [\<lparr>u_id = ''u'', u_email = Some ''u@example.com'', u_raw_user_meta_data = None\<rparr>],
         profiles = [\<lparr>p_id = ''u'', p_name = ''U'', p_email = ''u@example.com'',
                      p_account_type = contador, p_created_at = 0, p_last_login = Some 0\<rparr>],
         clients = [],
         tasks = [\<lparr>t_id = ''t1'', t_user_id = ''u'', t_client_id = None, t_title = ''DAS'',
                   t_description = None, t_task_type = imposto, t_due_date = ''2024-06-20'',
                   t_status = pendente, t_created_at = 3\<rparr>]\<rparr>"
        "\<lparr>t_id = ''t1'', t_user_id = ''u'', t_client_id = None, t_title = ''DAS'',
         t_description = None, t_task_type = imposto, t_due_date = ''2024-06-20'',
         t_status = pendente, t_created_at = 3\<rparr>" "''u''"]
    toggle_twice [of
        "\<lparr>auth_users = [\<lparr>u_id = ''u'', u_email = Some ''u@example.com'', u_raw_user_meta_data = None\<rparr>],
         profiles = [\<lparr>p_id = ''u'', p_name = ''U'', p_email = ''u@example.com'',
                      p_account_type = contador, p_created_at = 0, p_last_login = Some 0\<rparr>],
         clients = [],
         tasks = [\<lparr>t_id = ''t1'', t_user_id = ''u'', t_client_id = None, t_title = ''DAS'',
                   t_description = None, t_task_type = imposto, t_due_date = ''2024-06-20'',
                   t_status = atrasada, t_created_at = 3\<rparr>]\<rparr>"
        "\<lparr>t_id = ''t1'', t_user_id = ''u'', t_client_id = None, t_title = ''DAS'',
         t_description = None, t_task_type = imposto, t_due_date = ''2024-06-20'',
         t_status = atrasada, t_created_at = 3\<rparr>" "''u''"]
  by (simp add: check_constraints_def newStatus_def)

section \<open>Claims about the persisted status\<close>

text \<open>
  C9. No request of the application stores the status \<open>atrasada\<close>. The task form, when
  it creates, adds at most one row and that row is \<open>pendente\<close>; when it edits, it leaves
  the status of every row as it was; the completion toggle leaves each row as it was or
  with the status \<open>pendente\<close> or \<open>concluida\<close>. Hence every run of sign-ups, sign-ins
  and requests of the pages keeps the table of tasks free of \<open>atrasada\<close> once it is,
  and from the empty database every task it reaches is \<open>pendente\<close> or \<open>concluida\<close>.
\<close>

theorem status_never_atrasada:
  "((\<forall>t\<in>set (tasks db). t_status t \<noteq> atrasada) \<longrightarrow>
      (\<forall>t\<in>set (tasks (run ops db)). t_status t = pendente \<or> t_status t = concluida))
   \<and> (\<forall>t\<in>set (tasks (run ops empty_database)). t_status t = pendente \<or> t_status t = concluida)
   \<and> (\<not> truthy route_id \<longrightarrow>
      (\<forall>t\<in>set (tasks (TaskFormPage_onSubmit user route_id new_id now data db)).
         t \<in> set (tasks db) \<or> t_status t = pendente))
   \<and> (truthy route_id \<longrightarrow>
      map t_status (tasks (TaskFormPage_onSubmit user route_id new_id now data db)) =
        map t_status (tasks db))
   \<and> (\<forall>t\<in>set (tasks (toggleTaskComplete user task db)).
         t \<in> set (tasks db) \<or> t_status t = pendente \<or> t_status t = concluida)"
proof -
  have 1: "\<forall>t\<in>set (tasks (run ops db)). t_status t = pendente \<or> t_status t = concluida"
    if "\<forall>t\<in>set (tasks db). t_status t \<noteq> atrasada"
    using run_no_atrasada [OF that, of ops] by (simp add: not_atrasada)
  have 2: "\<forall>t\<in>set (tasks (run ops empty_database)). t_status t = pendente \<or> t_status t = concluida"
    using run_no_atrasada [of empty_database ops] by (simp add: not_atrasada empty_database_def)
  show ?thesis
    using 1 2 Task_create_rows [of route_id _ user new_id now data db]
      Task_edit_statuses [of route_id user new_id now data db]
      toggle_rows [of _ user task db]
    by blast
qed


text \<open>
  A run from the empty database: \<open>u\<close> signs up, creates two tasks, completes the
  first and edits the second.
\<close>

theorem status_never_atrasada_witness:
  "map t_status (tasks (run
     [Sign_up 5 \<lparr>u_id = ''u'', u_email = Some ''u@example.com'', u_raw_user_meta_data = None\<rparr>,
      Task_submit (Some ''u'') None ''t1'' 6
        \<lparr>title = ''IRPF 2024'', description = Some '''', task_type = declaracao,
         due_date = ''2024-05-31'', client_id = None\<rparr>,
      Task_submit (Some ''u'') None ''t2'' 7
        \<lparr>title = ''DAS'', description = None, task_type = imposto,
         due_date = ''2024-06-20'', client_id = None\<rparr>,
      Task_toggle (Some ''u'')
        \<lparr>t_id = ''t1'', t_user_id = ''u'', t_client_id = None, t_title = ''IRPF 2024'',
         t_description = None, t_task_type = declaracao, t_due_date = ''2024-05-31'',
         t_status = pendente, t_created_at = 6\<rparr>,
      Task_submit (Some ''u'') (Some ''t2'') ''t3'' 8
        \<lparr>title = ''DAS junho'', description = None, task_type = imposto,
         due_date = ''2024-06-20'', client_id = None\<rparr>]
     empty_database)) = [concluida, pendente]"
  using status_never_atrasada [of empty_database
     "[Sign_up 5 \<lparr>u_id = ''u'', u_email = Some ''u@example.com'', u_raw_user_meta_data = None\<rparr>,
      Task_submit (Some ''u'') None ''t1'' 6
        \<lparr>title = ''IRPF 2024'', description = Some '''', task_type = declaracao,
         due_date = ''2024-05-31'', client_id = None\<rparr>,
      Task_submit (Some ''u'') None ''t2'' 7
        \<lparr>title = ''DAS'', description = None, task_type = imposto,
         due_date = ''2024-06-20'', client_id = None\<rparr>,
      Task_toggle (Some ''u'')
        \<lparr>t_id = ''t1'', t_user_id = ''u'', t_client_id = None, t_title = ''IRPF 2024'',
         t_description = None, t_task_type = declaracao, t_due_date = ''2024-05-31'',
         t_status = pendente, t_created_at = 6\<rparr>,
      Task_submit (Some ''u'') (Some ''t2'') ''t3'' 8
        \<lparr>title = ''DAS junho'', description = None, task_type = imposto,
         due_date = ''2024-06-20'', client_id = None\<rparr>]"
     None "Some ''u''" "''t1''" 6
     "\<lparr>title = ''IRPF 2024'', description = Some '''', task_type = declaracao,
         due_date = ''2024-05-31'', client_id = None\<rparr>"]
  by (simp add: signup_eval TaskFormPage_onSubmit_def make_taskData_def taskData_row_def
      taskData_set_def insert_tasks_def insert_own_tasks_def truthy_def or_null_def
      toggleTaskComplete_def update_tasks_def view_own_tasks_def update_own_tasks_def
      tasks_eq_id_def newStatus_def Let_def)

end
